theory Spec2Isabelle
  imports Complex_Main "HOL-Library.Word" "HOL-Library.Sublist"
begin

unbundle bit_operations_syntax

section \<open>Values of the program\<close>

text \<open>
  Python's \<open>bytes\<close> is a list of 8-bit words. Python's \<open>str\<close> is a \<open>string\<close> holding the
  UTF-8 code units of the text, so that \<open>str.encode('utf-8')\<close> only changes the type and
  \<open>len\<close> of the encoded content is the length of the list. Python's unbounded \<open>int\<close> is
  \<open>int\<close>; a \<open>float\<close> (a modification time, a clock reading) is a \<open>real\<close>, of which the
  program only tests truthiness (\<open>x \<noteq> 0\<close>) and which it hands to formatting functions;
  it does no arithmetic on it. Infinities and NaN are not values of the model.
\<close>

type_synonym byte = "8 word"
type_synonym bytes = "byte list"

datatype error =
    RuntimeError string
  | FileNotFoundError string
  | NotADirectoryError string
  | IsADirectoryError string
  | PermissionError string
  | ValueError string
  | OverflowError string
  | TypeError string

definition encode :: "string \<Rightarrow> bytes" where
  "encode s = map of_char s"

subsection \<open>\<open>str.upper\<close>, \<open>str.lower\<close>, \<open>str(int)\<close>\<close>

text \<open>
  Case mapping on the ASCII letters; every other code unit is left alone. (HTTP methods
  and header names are ASCII tokens.)
\<close>

definition ascii_lowercase :: string where
  "ascii_lowercase = ''abcdefghijklmnopqrstuvwxyz''"

definition ascii_uppercase :: string where
  "ascii_uppercase = ''ABCDEFGHIJKLMNOPQRSTUVWXYZ''"

definition digits :: string where
  "digits = ''0123456789''"

definition upper_char :: "char \<Rightarrow> char" where
  "upper_char c =
     (case map_of (zip ascii_lowercase ascii_uppercase) c of Some u \<Rightarrow> u | None \<Rightarrow> c)"

definition lower_char :: "char \<Rightarrow> char" where
  "lower_char c =
     (case map_of (zip ascii_uppercase ascii_lowercase) c of Some l \<Rightarrow> l | None \<Rightarrow> c)"

definition str_upper :: "string \<Rightarrow> string" where
  "str_upper s = map upper_char s"

definition str_lower :: "string \<Rightarrow> string" where
  "str_lower s = map lower_char s"

definition digit_char :: "nat \<Rightarrow> char" where
  "digit_char d = digits ! d"

function str_nat :: "nat \<Rightarrow> string" where
  "str_nat n = (if n < 10 then [digit_char n] else str_nat (n div 10) @ [digit_char (n mod 10)])"
  by pat_completeness auto
termination
  by (relation "measure id") auto

declare str_nat.simps [simp del]

definition str_int :: "int \<Rightarrow> string" where
  "str_int i = (if i < 0 then CHR ''-'' # str_nat (nat (- i)) else str_nat (nat i))"

subsection \<open>\<open>urllib.parse.quote\<close>\<close>

text \<open>
  Percent-encoding with the default \<open>safe='/'\<close>: the text is encoded to UTF-8 and every
  byte that is not a letter, a digit or one of \<open>_.-~/\<close> becomes \<open>%XX\<close> in upper-case
  hexadecimal.
\<close>

definition always_safe :: "char \<Rightarrow> bool" where
  "always_safe c \<longleftrightarrow> c \<in> set (ascii_uppercase @ ascii_lowercase @ digits @ ''_.-~'')"

definition hex_digit :: "nat \<Rightarrow> char" where
  "hex_digit d = ''0123456789ABCDEF'' ! d"

definition quote_char :: "char \<Rightarrow> string" where
  "quote_char c =
     (if always_safe c \<or> c = CHR ''/'' then [c]
      else [CHR ''%'', hex_digit ((of_char c :: nat) div 16), hex_digit ((of_char c :: nat) mod 16)])"

definition quote :: "string \<Rightarrow> string" where
  "quote s = concat (map quote_char s)"

subsection \<open>\<open>range(0, n, step)\<close> and \<open>slicer\<close>\<close>

text \<open>
  \<open>range(0, n, step)\<close> raises \<open>ValueError\<close> for a zero step, is empty for a negative step
  (\<open>n\<close> is a length), and otherwise holds the multiples of \<open>step\<close> below \<open>n\<close>.
\<close>

definition range_step :: "nat \<Rightarrow> int \<Rightarrow> error + nat list" where
  "range_step n step =
     (if step = 0 then Inl (ValueError ''range() arg 3 must not be zero'')
      else if step < 0 then Inr []
      else Inr (map (\<lambda>k. k * nat step) [0 ..< (n + nat step - 1) div nat step]))"

text \<open>
  \<open>slicer(text, chunk_size)\<close>: the slices \<open>text[i : i + chunk_size]\<close> for \<open>i\<close> in
  \<open>range(0, len(text), chunk_size)\<close>.
\<close>

definition slicer :: "'a list \<Rightarrow> int \<Rightarrow> error + 'a list list" where
  "slicer text chunk_size =
     (case range_step (length text) chunk_size of
        Inl e \<Rightarrow> Inl e
      | Inr idx \<Rightarrow> Inr (map (\<lambda>i. take (nat chunk_size) (drop i text)) idx))"

section \<open>Library functions taken as parameters\<close>

text \<open>
  The functions of the Python standard library and of Starlette that the program calls
  and whose results it only passes on: \<open>mimetypes.guess_type\<close> (first component),
  \<open>email.utils.formatdate(_, usegmt=True)\<close>, which raises \<open>ValueError\<close> or
  \<open>OverflowError\<close> on a time outside the years it can format, \<open>str\<close> of a float,
  Starlette's \<open>md5_hexdigest\<close>, and \<open>json.dumps\<close>, which raises on a structure it cannot
  serialize.
\<close>

record 'j stdlib =
  guess_type :: "string \<Rightarrow> string option"
  formatdate :: "real \<Rightarrow> error + string"
  str_float :: "real \<Rightarrow> string"
  md5_hexdigest :: "bytes \<Rightarrow> string"
  json_dumps :: "'j \<Rightarrow> error + string"

section \<open>Headers, messages, the world\<close>

text \<open>
  \<open>raw_headers\<close> is Starlette's list of (name, value) pairs; \<open>self.headers\<close> is a mutable
  view of that same list. \<open>lookup_header\<close> is the view's item access (first match).
\<close>

type_synonym headers = "(string \<times> string) list"

definition lookup_header :: "string \<Rightarrow> headers \<Rightarrow> string option" where
  "lookup_header key hs = map_of hs (str_lower key)"

text \<open>
  \<open>MutableHeaders.setdefault\<close>: the list is left alone when it already has the key, and
  the pair is appended otherwise.
\<close>

definition setdefault :: "string \<Rightarrow> string \<Rightarrow> headers \<Rightarrow> headers" where
  "setdefault key val hs =
     (if str_lower key \<in> set (map fst hs) then hs else hs @ [(str_lower key, val)])"

text \<open>Python's \<open>needle in haystack\<close> on strings.\<close>

fun contains :: "string \<Rightarrow> string \<Rightarrow> bool" where
  "contains needle [] = (needle = [])"
| "contains needle (c # cs) = (prefix needle (c # cs) \<or> contains needle cs)"

text \<open>
  \<open>Response.init_headers\<close> of Starlette, for a response without a \<open>body\<close> attribute (the
  constructors below never set one): the caller's header names are lower-cased, and a
  content-type built from the media type is appended unless the caller gave one.
\<close>

definition init_headers :: "string option \<Rightarrow> headers option \<Rightarrow> headers" where
  "init_headers media_type hdrs =
     (let raw = (case hdrs of None \<Rightarrow> [] | Some hs \<Rightarrow> map (\<lambda>(k, v). (str_lower k, v)) hs);
          populate_content_type = (''content-type'' \<notin> set (map fst raw))
      in case media_type of
           None \<Rightarrow> raw
         | Some content_type \<Rightarrow>
             if populate_content_type
             then raw @ [(''content-type'',
                    if prefix ''text/'' content_type
                       \<and> \<not> contains ''charset='' (str_lower content_type)
                    then content_type @ ''; charset=utf-8'' else content_type)]
             else raw)"

text \<open>
  The messages of the output channel and their \<open>'type'\<close> entry. The program builds the
  first two; the third is the message of the \<open>http.response.pathsend\<close> extension, which
  the tests of the program look for.
\<close>

datatype message =
    ResponseStart (status: int) (start_headers: headers)
  | ResponseBody (body: bytes) (more_body: bool)
  | ResponsePathsend (sent_path: string)

fun message_type :: "message \<Rightarrow> string" where
  "message_type (ResponseStart _ _) = ''http.response.start''"
| "message_type (ResponseBody _ _) = ''http.response.body''"
| "message_type (ResponsePathsend _) = ''http.response.pathsend''"

text \<open>
  The request scope: \<open>scope['method']\<close> (the field \<open>http_method\<close>) and the keys of
  \<open>scope['extensions']\<close>.
\<close>

record scope =
  http_method :: string
  extensions :: "string list"

text \<open>
  What \<open>os.stat\<close> returns, and a file system entry: its status and the bytes a reader gets.
\<close>

record stat_result =
  st_mode :: int
  st_size :: int
  st_mtime :: real

record fs_node =
  node_stat :: stat_result
  node_data :: bytes

text \<open>
  \<open>stat.S_ISREG\<close> and \<open>stat.S_ISDIR\<close>: the file type bits \<open>0o170000\<close> of the mode are
  \<open>0o100000\<close> for a regular file and \<open>0o040000\<close> for a directory.
\<close>

definition S_ISREG :: "int \<Rightarrow> bool" where
  "S_ISREG mode \<longleftrightarrow> mode AND 0xF000 = 0x8000"

definition S_ISDIR :: "int \<Rightarrow> bool" where
  "S_ISDIR mode \<longleftrightarrow> mode AND 0xF000 = 0x4000"

text \<open>
  The world a call runs in: the entries of the file system, by path; the error, if any,
  with which the operating system refuses \<open>os.stat\<close> on a path, and the one with which
  it refuses to open it for reading, for a reason other than the absence of the path (a
  path below a regular file is refused with \<open>NotADirectoryError\<close>, one it may not
  search or read with \<open>PermissionError\<close>); the successive readings of
  \<open>time.monotonic()\<close> with the number of readings taken; the trace of what the call did
  that its caller can observe (messages sent, the background task run); and the
  application's own state, on which a background task works.
\<close>

datatype event = Sent message | BackgroundRun

record 'u world =
  fs :: "string \<Rightarrow> fs_node option"
  stat_error :: "string \<Rightarrow> error option"
  open_error :: "string \<Rightarrow> error option"
  clock :: "nat \<Rightarrow> real"
  ticks :: nat
  trace :: "event list"
  user :: 'u

definition send :: "message \<Rightarrow> 'u world \<Rightarrow> 'u world" where
  "send m w = w\<lparr>trace := trace w @ [Sent m]\<rparr>"

definition monotonic :: "'u world \<Rightarrow> real \<times> 'u world" where
  "monotonic w = (clock w (ticks w), w\<lparr>ticks := Suc (ticks w)\<rparr>)"

text \<open>
  \<open>os.stat(path)\<close>: a path with a NUL character is rejected with \<open>ValueError\<close> before
  the operating system is asked; a path the system refuses gives that error; a path
  that resolves to no entry gives \<open>FileNotFoundError\<close>.
\<close>

definition os_stat :: "string \<Rightarrow> 'u world \<Rightarrow> error + stat_result" where
  "os_stat p w =
     (if CHR 0x00 \<in> set p then Inl (ValueError ''embedded null byte'')
      else case stat_error w p of
             Some e \<Rightarrow> Inl e
           | None \<Rightarrow> (case fs w p of
                        None \<Rightarrow> Inl (FileNotFoundError p)
                      | Some n \<Rightarrow> Inr (node_stat n)))"

text \<open>Opening the path for reading in binary mode; the result is the content to read.\<close>

definition open_file :: "string \<Rightarrow> 'u world \<Rightarrow> error + bytes" where
  "open_file p w =
     (if CHR 0x00 \<in> set p then Inl (ValueError ''embedded null byte'')
      else case open_error w p of
             Some e \<Rightarrow> Inl e
           | None \<Rightarrow> (case fs w p of
                        None \<Rightarrow> Inl (FileNotFoundError p)
                      | Some n \<Rightarrow> if S_ISDIR (st_mode (node_stat n))
                                  then Inl (IsADirectoryError p)
                                  else Inr (node_data n)))"

text \<open>
  \<open>file.read(n)\<close> at the start of the file: \<open>-1\<close> reads to the end, a size below \<open>-1\<close>
  raises \<open>ValueError\<close>.
\<close>

definition file_read :: "bytes \<Rightarrow> int \<Rightarrow> error + bytes" where
  "file_read data n =
     (if n < - 1 then Inl (ValueError ''read length must be non-negative or -1'')
      else if n = - 1 then Inr data
      else Inr (take (nat n) data))"

definition frames :: "'u world \<Rightarrow> message list" where
  "frames w = concat (map (\<lambda>e. case e of Sent m \<Rightarrow> [m] | BackgroundRun \<Rightarrow> []) (trace w))"

definition body_frames :: "message list \<Rightarrow> message list" where
  "body_frames ms = filter (\<lambda>m. message_type m = ''http.response.body'') ms"

section \<open>The response classes\<close>

text \<open>
  One record for the instances of the four classes. \<open>klass\<close> is the class of the object
  and decides which methods run; \<open>path\<close> and \<open>stat_result\<close> are attributes of
  \<open>FileResponse\<close> only and \<open>content\<close> of the in-memory classes only (the others hold
  an empty value). \<open>chunk_size\<close> is the class attribute \<open>64 * 1024\<close>, which a subclass or
  an instance may override. \<open>size_attr\<close> is \<open>self.size\<close>. A background task is a function on
  the application's state.
\<close>

datatype klass = FileResponse | BytesFileResponse | TextFileResponse | JsonFileResponse

record 'u response =
  klass :: klass
  chunk_size :: int
  status_code :: int
  media_type :: "string option"
  background :: "('u \<Rightarrow> 'u) option"
  filename :: "string option"
  raw_headers :: headers
  size_attr :: "int option"
  mtime :: "real option"
  path :: string
  stat_result :: "stat_result option"
  content :: bytes

definition dquote :: string where
  "dquote = [CHR 0x22]"

definition squote :: string where
  "squote = [CHR 0x27]"

subsection \<open>\<open>BaseFileResponse\<close>\<close>

text \<open>
  \<open>set_content_disposition_header\<close> is only called with a filename; without one the
  record is returned as it is.
\<close>

definition set_content_disposition_header :: "'u response \<Rightarrow> string \<Rightarrow> 'u response" where
  "set_content_disposition_header self content_disposition_type =
     (case filename self of
        None \<Rightarrow> self
      | Some fname \<Rightarrow>
          let content_disposition_filename = quote fname;
              content_disposition =
                (if content_disposition_filename \<noteq> fname
                 then content_disposition_type @ ''; filename*=utf-8'' @ squote @ squote
                        @ content_disposition_filename
                 else content_disposition_type @ ''; filename='' @ dquote @ fname @ dquote)
          in self\<lparr>raw_headers :=
                    setdefault ''content-disposition'' content_disposition (raw_headers self)\<rparr>)"

text \<open>
  \<open>set_stat_headers\<close>: the three values are computed first, so an error of \<open>formatdate\<close>
  leaves the method before any header is set.
\<close>

definition set_stat_headers ::
  "'j stdlib \<Rightarrow> 'u response \<Rightarrow> int \<Rightarrow> real \<Rightarrow> error + 'u response" where
  "set_stat_headers L self sz mt =
     (let content_length = str_int sz
      in case formatdate L mt of
           Inl e \<Rightarrow> Inl e
         | Inr last_modified \<Rightarrow>
             let etag_base = str_float L mt @ ''-'' @ str_int sz;
                 etag = dquote @ md5_hexdigest L (encode etag_base) @ dquote
             in Inr (self\<lparr>raw_headers :=
                           setdefault ''etag'' etag
                             (setdefault ''last-modified'' last_modified
                                (setdefault ''content-length'' content_length
                                   (raw_headers self)))\<rparr>))"

text \<open>
  \<open>BaseFileResponse.__init__\<close>; \<open>cls\<close> is the class of the object under construction.
\<close>

definition BaseFileResponse_init ::
  "'j stdlib \<Rightarrow> klass \<Rightarrow> int \<Rightarrow> headers option \<Rightarrow> string option \<Rightarrow> ('u \<Rightarrow> 'u) option
     \<Rightarrow> string option \<Rightarrow> int option \<Rightarrow> real option \<Rightarrow> string \<Rightarrow> 'u response" where
  "BaseFileResponse_init L cls status_code' headers' media_type' background' filename' size' mtime'
       content_disposition_type =
     (let media_type1 =
            (case (media_type', filename') of
               (None, Some fname) \<Rightarrow>
                 Some (case guess_type L fname of
                         None \<Rightarrow> ''text/plain''
                       | Some t \<Rightarrow> if t = [] then ''text/plain'' else t)
             | _ \<Rightarrow> media_type');
          self = \<lparr>klass = cls, chunk_size = 64 * 1024, status_code = status_code',
                  media_type = media_type1, background = background', filename = filename',
                  raw_headers = init_headers media_type1 headers',
                  size_attr = size', mtime = mtime',
                  path = [], stat_result = None, content = []\<rparr>
      in case filename' of
           None \<Rightarrow> self
         | Some _ \<Rightarrow> set_content_disposition_header self content_disposition_type)"

subsection \<open>\<open>FileResponse\<close>\<close>

definition FileResponse_init ::
  "'j stdlib \<Rightarrow> string \<Rightarrow> int \<Rightarrow> headers option \<Rightarrow> string option \<Rightarrow> ('u \<Rightarrow> 'u) option
     \<Rightarrow> string option \<Rightarrow> stat_result option \<Rightarrow> string \<Rightarrow> 'u response" where
  "FileResponse_init L path' status_code' headers' media_type' background' filename' stat_result'
       content_disposition_type =
     (let media_type1 =
            (if media_type' = None \<and> filename' = None then guess_type L path' else media_type');
          size' = (case stat_result' of None \<Rightarrow> None | Some st \<Rightarrow> Some (st_size st));
          mtime' = (case stat_result' of None \<Rightarrow> None | Some st \<Rightarrow> Some (st_mtime st));
          self = BaseFileResponse_init L FileResponse status_code' headers' media_type1
                   background' filename' size' mtime' content_disposition_type
      in self\<lparr>path := path', stat_result := stat_result'\<rparr>)"

text \<open>
  \<open>FileResponse.pre_call\<close>. Only \<open>FileNotFoundError\<close> is caught; any other error of
  \<open>os.stat\<close>, and an error of \<open>set_stat_headers\<close>, is passed on unchanged.
\<close>

definition FileResponse_pre_call ::
  "'j stdlib \<Rightarrow> 'u response \<Rightarrow> 'u world \<Rightarrow> (error + unit) \<times> 'u response \<times> 'u world" where
  "FileResponse_pre_call L self w =
     (let check = (\<lambda>st self1.
            if \<not> S_ISREG (st_mode st)
            then (Inl (RuntimeError (''File at path '' @ path self @ '' is not a file.'')), self1, w)
            else (Inr (), self1, w))
      in case stat_result self of
           Some st \<Rightarrow> check st self
         | None \<Rightarrow>
             (case os_stat (path self) w of
                Inl (FileNotFoundError _) \<Rightarrow>
                  (Inl (RuntimeError (''File at path '' @ path self @ '' does not exist.'')), self, w)
              | Inl e \<Rightarrow> (Inl e, self, w)
              | Inr st \<Rightarrow>
                  (case set_stat_headers L self (st_size st) (st_mtime st) of
                     Inl e \<Rightarrow> (Inl e, self, w)
                   | Inr self1 \<Rightarrow> check st self1)))"

text \<open>
  \<open>FileResponse.iterate_content\<close>: the file is opened, read once and the result yielded;
  the generator ends (and the file is closed) when it is resumed.
\<close>

definition FileResponse_iterate_content ::
  "'u response \<Rightarrow> int \<Rightarrow> 'u world \<Rightarrow> error + bytes list" where
  "FileResponse_iterate_content self chunk_size' w =
     (case open_file (path self) w of
        Inl e \<Rightarrow> Inl e
      | Inr data \<Rightarrow>
          (case file_read data chunk_size' of
             Inl e \<Rightarrow> Inl e
           | Inr chunk \<Rightarrow> Inr [chunk]))"

subsection \<open>\<open>BytesFileResponse\<close>, \<open>TextFileResponse\<close>, \<open>JsonFileResponse\<close>\<close>

definition BytesFileResponse_init ::
  "'j stdlib \<Rightarrow> klass \<Rightarrow> bytes \<Rightarrow> string \<Rightarrow> int \<Rightarrow> headers option \<Rightarrow> string option
     \<Rightarrow> ('u \<Rightarrow> 'u) option \<Rightarrow> int option \<Rightarrow> real option \<Rightarrow> string \<Rightarrow> 'u response" where
  "BytesFileResponse_init L cls content' filename' status_code' headers' media_type' background'
       size' mtime' content_disposition_type =
     (BaseFileResponse_init L cls status_code' headers' media_type' background' (Some filename')
        size' mtime' content_disposition_type)\<lparr>content := content'\<rparr>"

text \<open>
  \<open>BytesFileResponse.pre_call\<close>. The locals \<open>size\<close> and \<open>mtime\<close> are computed and not
  used; computing \<open>mtime\<close> reads the clock when \<open>self.mtime\<close> is \<open>None\<close>. The headers are
  set from \<open>self.size or len(self.content)\<close> and \<open>self.mtime or time.monotonic()\<close>, where
  \<open>or\<close> takes its right operand when the left one is \<open>None\<close> or zero. An error of
  \<open>set_stat_headers\<close> leaves the hook.
\<close>

definition BytesFileResponse_pre_call ::
  "'j stdlib \<Rightarrow> 'u response \<Rightarrow> 'u world \<Rightarrow> (error + unit) \<times> 'u response \<times> 'u world" where
  "BytesFileResponse_pre_call L self w =
     (let w1 = (case mtime self of None \<Rightarrow> snd (monotonic w) | Some _ \<Rightarrow> w);
          sz = (case size_attr self of
                  None \<Rightarrow> int (length (content self))
                | Some s \<Rightarrow> if s = 0 then int (length (content self)) else s);
          (mt, w2) = (case mtime self of
                        None \<Rightarrow> monotonic w1
                      | Some m \<Rightarrow> if m = 0 then monotonic w1 else (m, w1))
      in case set_stat_headers L self sz mt of
           Inl e \<Rightarrow> (Inl e, self, w2)
         | Inr self1 \<Rightarrow> (Inr (), self1, w2))"

definition BytesFileResponse_iterate_content ::
  "'u response \<Rightarrow> int \<Rightarrow> 'u world \<Rightarrow> error + bytes list" where
  "BytesFileResponse_iterate_content self chunk_size' w = slicer (content self) chunk_size'"

definition TextFileResponse_init ::
  "'j stdlib \<Rightarrow> string \<Rightarrow> string \<Rightarrow> int \<Rightarrow> headers option \<Rightarrow> string option
     \<Rightarrow> ('u \<Rightarrow> 'u) option \<Rightarrow> int option \<Rightarrow> real option \<Rightarrow> string \<Rightarrow> 'u response" where
  "TextFileResponse_init L content' filename' status_code' headers' media_type' background'
       size' mtime' content_disposition_type =
     (BaseFileResponse_init L TextFileResponse status_code' headers' media_type' background'
        (Some filename') size' mtime' content_disposition_type)\<lparr>content := encode content'\<rparr>"

definition TextFileResponse_pre_call ::
  "'j stdlib \<Rightarrow> 'u response \<Rightarrow> 'u world \<Rightarrow> (error + unit) \<times> 'u response \<times> 'u world" where
  "TextFileResponse_pre_call L self w =
     (let w1 = (case mtime self of None \<Rightarrow> snd (monotonic w) | Some _ \<Rightarrow> w);
          sz = (case size_attr self of
                  None \<Rightarrow> int (length (content self))
                | Some s \<Rightarrow> if s = 0 then int (length (content self)) else s);
          (mt, w2) = (case mtime self of
                        None \<Rightarrow> monotonic w1
                      | Some m \<Rightarrow> if m = 0 then monotonic w1 else (m, w1))
      in case set_stat_headers L self sz mt of
           Inl e \<Rightarrow> (Inl e, self, w2)
         | Inr self1 \<Rightarrow> (Inr (), self1, w2))"

definition TextFileResponse_iterate_content ::
  "'u response \<Rightarrow> int \<Rightarrow> 'u world \<Rightarrow> error + bytes list" where
  "TextFileResponse_iterate_content self chunk_size' w = slicer (content self) chunk_size'"

text \<open>
  \<open>JsonFileResponse.__init__\<close>: the structure is serialized and encoded, then
  \<open>BytesFileResponse.__init__\<close> runs on the new object. A serialization error leaves the
  constructor.
\<close>

definition JsonFileResponse_init ::
  "'j stdlib \<Rightarrow> 'j \<Rightarrow> string \<Rightarrow> int \<Rightarrow> headers option \<Rightarrow> string option
     \<Rightarrow> ('u \<Rightarrow> 'u) option \<Rightarrow> int option \<Rightarrow> real option \<Rightarrow> string \<Rightarrow> error + 'u response" where
  "JsonFileResponse_init L content' filename' status_code' headers' media_type' background'
       size' mtime' content_disposition_type =
     (case json_dumps L content' of
        Inl e \<Rightarrow> Inl e
      | Inr text \<Rightarrow>
          Inr (BytesFileResponse_init L JsonFileResponse (encode text) filename' status_code'
                 headers' media_type' background' size' mtime' content_disposition_type))"

subsection \<open>Method dispatch and \<open>BaseFileResponse.__call__\<close>\<close>

text \<open>
  \<open>JsonFileResponse\<close> defines neither hook nor \<open>iterate_content\<close> and inherits them from
  \<open>BytesFileResponse\<close>. No class overrides \<open>post_call\<close>, whose body is empty.
\<close>

definition pre_call ::
  "'j stdlib \<Rightarrow> 'u response \<Rightarrow> 'u world \<Rightarrow> (error + unit) \<times> 'u response \<times> 'u world" where
  "pre_call L self w =
     (case klass self of
        FileResponse \<Rightarrow> FileResponse_pre_call L self w
      | BytesFileResponse \<Rightarrow> BytesFileResponse_pre_call L self w
      | TextFileResponse \<Rightarrow> TextFileResponse_pre_call L self w
      | JsonFileResponse \<Rightarrow> BytesFileResponse_pre_call L self w)"

definition post_call :: "'u response \<Rightarrow> 'u world \<Rightarrow> 'u response \<times> 'u world" where
  "post_call self w = (self, w)"

definition iterate_content :: "'u response \<Rightarrow> int \<Rightarrow> 'u world \<Rightarrow> error + bytes list" where
  "iterate_content self chunk_size' w =
     (case klass self of
        FileResponse \<Rightarrow> FileResponse_iterate_content self chunk_size' w
      | BytesFileResponse \<Rightarrow> BytesFileResponse_iterate_content self chunk_size' w
      | TextFileResponse \<Rightarrow> TextFileResponse_iterate_content self chunk_size' w
      | JsonFileResponse \<Rightarrow> BytesFileResponse_iterate_content self chunk_size' w)"

text \<open>The body of the \<open>async for\<close> loop, once per chunk, in order.\<close>

fun send_chunks :: "int \<Rightarrow> bytes list \<Rightarrow> 'u world \<Rightarrow> 'u world" where
  "send_chunks cs [] w = w"
| "send_chunks cs (chunk # rest) w =
     send_chunks cs rest (send (ResponseBody chunk (int (length chunk) = cs)) w)"

definition run_background :: "('u \<Rightarrow> 'u) option \<Rightarrow> 'u world \<Rightarrow> 'u world" where
  "run_background bg w =
     (case bg of
        None \<Rightarrow> w
      | Some task \<Rightarrow> w\<lparr>trace := trace w @ [BackgroundRun], user := task (user w)\<rparr>)"

text \<open>
  \<open>BaseFileResponse.__call__\<close>. An error ends the call where it is raised; what was sent
  before stays sent. The content iterator raises, if at all, before its first chunk.
\<close>

definition call ::
  "'j stdlib \<Rightarrow> 'u response \<Rightarrow> scope \<Rightarrow> 'u world \<Rightarrow> (error + unit) \<times> 'u response \<times> 'u world" where
  "call L self sc w =
     (case pre_call L self w of
        (Inl e, self1, w1) \<Rightarrow> (Inl e, self1, w1)
      | (Inr _, self1, w1) \<Rightarrow>
          let w2 = send (ResponseStart (status_code self1) (raw_headers self1)) w1
          in if str_upper (http_method sc) = ''HEAD''
             then let w3 = send (ResponseBody [] False) w2;
                      (self2, w4) = post_call self1 w3
                  in (Inr (), self2, run_background (background self2) w4)
             else (case iterate_content self1 (chunk_size self1) w2 of
                     Inl e \<Rightarrow> (Inl e, self1, w2)
                   | Inr chunks \<Rightarrow>
                       let w3 = send_chunks (chunk_size self1) chunks w2;
                           (self2, w4) = post_call self1 w3
                       in (Inr (), self2, run_background (background self2) w4)))"

section \<open>Concrete inputs\<close>

text \<open>
  A library instance, file systems and requests on which the definitions are evaluated.
  The formatting functions of \<open>lib0\<close> are stand-ins that keep their argument visible
  (the digest is the hexadecimal dump of its input; the date is refused outside the
  years 1 to 9999); its serializer takes a text to the JSON string literal of that text.
  In \<open>world0\<close>, \<open>/tmp/xyz\<close> and \<open>/tmp/big\<close> are regular files, \<open>/tmp\<close> is a directory,
  and a path below \<open>/tmp/xyz\<close> is refused as not a directory.
\<close>

definition lib0 :: "string stdlib" where
  "lib0 = \<lparr>guess_type = (\<lambda>name. if name = ''example.png'' then Some ''image/png'' else None),
           formatdate = (\<lambda>t. if t < - 62135596800 \<or> 253402300800 \<le> t
                             then Inl (ValueError ''year out of range'')
                             else Inr (''date:'' @ str_int \<lfloor>t\<rfloor>)),
           str_float = (\<lambda>t. str_int \<lfloor>t\<rfloor> @ ''.0''),
           md5_hexdigest = (\<lambda>b. concat (map (\<lambda>x. [hex_digit (unat x div 16), hex_digit (unat x mod 16)]) b)),
           json_dumps = (\<lambda>t. Inr (dquote @ t @ dquote))\<rparr>"

definition regular_file :: "bytes \<Rightarrow> fs_node" where
  "regular_file data = \<lparr>node_stat = \<lparr>st_mode = 0x81A4, st_size = int (length data), st_mtime = 1000\<rparr>,
                         node_data = data\<rparr>"

definition directory :: fs_node where
  "directory = \<lparr>node_stat = \<lparr>st_mode = 0x41ED, st_size = 4096, st_mtime = 900\<rparr>, node_data = []\<rparr>"

definition world0 :: "string world" where
  "world0 = \<lparr>fs = (\<lambda>p. if p = ''/tmp/xyz'' then Some (regular_file [60, 102, 105, 108, 101, 62])
                      else if p = ''/tmp/big'' then Some (regular_file (replicate 65537 60))
                      else if p = ''/tmp'' then Some directory
                      else None),
             stat_error = (\<lambda>p. if prefix ''/tmp/xyz/'' p then Some (NotADirectoryError p) else None),
             open_error = (\<lambda>p. if prefix ''/tmp/xyz/'' p then Some (NotADirectoryError p) else None),
             clock = (\<lambda>n. 5000 + real n), ticks = 0, trace = [], user = []\<rparr>"

definition get_scope :: scope where
  "get_scope = \<lparr>http_method = ''GET'', extensions = []\<rparr>"

definition head_scope :: scope where
  "head_scope = \<lparr>http_method = ''head'', extensions = []\<rparr>"

definition pathsend_scope :: scope where
  "pathsend_scope = \<lparr>http_method = ''get'', extensions = [''http.response.pathsend'']\<rparr>"

definition big_file_response :: "string response" where
  "big_file_response =
     FileResponse_init lib0 ''/tmp/big'' 200 None None None None None ''attachment''"

definition exact_bytes_response :: "string response" where
  "exact_bytes_response =
     BytesFileResponse_init lib0 BytesFileResponse (replicate 65536 60) ''example.png'' 200
       None None None None None ''attachment''"

definition empty_bytes_response :: "string response" where
  "empty_bytes_response =
     BytesFileResponse_init lib0 BytesFileResponse [] ''example.png'' 200
       None None None None None ''attachment''"

definition missing_file_response :: "string response" where
  "missing_file_response =
     FileResponse_init lib0 ''/tmp/404.txt'' 200 None None None (Some ''404.txt'') None ''attachment''"

definition dir_response :: "string response" where
  "dir_response =
     FileResponse_init lib0 ''/tmp'' 200 None None None (Some ''example.png'') None ''attachment''"

definition stat_dir_response :: "string response" where
  "stat_dir_response =
     FileResponse_init lib0 ''/tmp'' 200 None None None (Some ''example.png'')
       (Some (node_stat directory)) ''attachment''"

definition cleanup_task :: "string \<Rightarrow> string" where
  "cleanup_task filled = filled @ ''6, 7, 8, 9''"

definition xyz_file_response :: "string response" where
  "xyz_file_response =
     FileResponse_init lib0 ''/tmp/xyz'' 200 None None (Some cleanup_task) (Some ''example.png'')
       None ''attachment''"

definition xyz_headers :: headers where
  "xyz_headers = [(''content-type'', ''image/png''),
       (''content-disposition'', ''attachment; filename='' @ dquote @ ''example.png'' @ dquote),
       (''content-length'', ''6''), (''last-modified'', ''date:1000''),
       (''etag'', dquote @ ''313030302E302D36'' @ dquote)]"

definition json_hi_init :: "error + string response" where
  "json_hi_init =
     JsonFileResponse_init lib0 ''hi'' ''example.png'' 200 None None None None None ''attachment''"

definition bytes_hi_response :: "string response" where
  "bytes_hi_response =
     BytesFileResponse_init lib0 BytesFileResponse (encode (dquote @ ''hi'' @ dquote))
       ''example.png'' 200 None None None None None ''attachment''"

definition nihao_txt :: string where
  "nihao_txt = [CHR 0xE4, CHR 0xBD, CHR 0xA0, CHR 0xE5, CHR 0xA5, CHR 0xBD] @ ''.txt''"

definition zero_size_response :: "string response" where
  "zero_size_response =
     BytesFileResponse_init lib0 BytesFileResponse [60, 62] ''example.png'' 200 None None None
       (Some 0) (Some 0) ''attachment''"

definition stat_xyz_response :: "string response" where
  "stat_xyz_response =
     FileResponse_init lib0 ''/tmp/xyz'' 200 None None None (Some ''example.png'')
       (Some (node_stat (regular_file [60, 102, 105, 108, 101, 62]))) ''attachment''"

definition child_response :: "string response" where
  "child_response =
     FileResponse_init lib0 ''/tmp/xyz/child'' 200 None None None (Some ''child.txt'') None
       ''attachment''"


definition far_future_response :: "string response" where
  "far_future_response =
     BytesFileResponse_init lib0 BytesFileResponse [60, 62] ''example.png'' 200
       None None None None (Some 300000000000) ''attachment''"

definition dir_headers :: headers where
  "dir_headers = [(''content-type'', ''image/png''),
       (''content-disposition'', ''attachment; filename='' @ dquote @ ''example.png'' @ dquote),
       (''content-length'', ''4096''), (''last-modified'', ''date:900''),
       (''etag'', dquote @ ''3930302E302D34303936'' @ dquote)]"

section \<open>Evaluation rules\<close>

lemma str_nat_small: "n < 10 \<Longrightarrow> str_nat n = [digit_char n]"
  by (simp add: str_nat.simps)

lemma str_nat_big: "10 \<le> n \<Longrightarrow> str_nat n = str_nat (n div 10) @ [digit_char (n mod 10)]"
  by (subst str_nat.simps) simp

lemmas str_eval = str_int_def str_nat_small str_nat_big digit_char_def digits_def
  str_upper_def str_lower_def upper_char_def lower_char_def ascii_lowercase_def ascii_uppercase_def
  quote_def quote_char_def always_safe_def hex_digit_def dquote_def squote_def encode_def

lemmas model_eval = call_def pre_call_def post_call_def iterate_content_def run_background_def
  FileResponse_pre_call_def FileResponse_iterate_content_def FileResponse_init_def
  BytesFileResponse_pre_call_def BytesFileResponse_iterate_content_def BytesFileResponse_init_def
  TextFileResponse_pre_call_def TextFileResponse_iterate_content_def TextFileResponse_init_def
  JsonFileResponse_init_def BaseFileResponse_init_def set_stat_headers_def
  set_content_disposition_header_def setdefault_def init_headers_def lookup_header_def
  send_def monotonic_def os_stat_def open_file_def file_read_def S_ISREG_def S_ISDIR_def
  frames_def body_frames_def slicer_def range_step_def Let_def

lemmas fixture_eval = lib0_def regular_file_def directory_def world0_def get_scope_def
  head_scope_def pathsend_scope_def

section \<open>Chunking\<close>

lemma concat_slices: "concat (map (\<lambda>k. take c (drop (k * c) xs)) [0 ..< m]) = take (m * c) xs"
proof (induction m)
  case 0
  then show ?case by simp
next
  case (Suc m)
  have "take (m * c) xs @ take c (drop (m * c) xs) = take (m * c + c) xs"
    by (simp add: take_add)
  with Suc show ?case by (simp add: add.commute)
qed

lemma ceil_div_cover: "0 < c \<Longrightarrow> n \<le> ((n + c - 1) div c) * (c::nat)"
proof -
  assume c: "0 < c"
  have "n + c - 1 = ((n + c - 1) div c) * c + (n + c - 1) mod c" by simp
  moreover have "(n + c - 1) mod c < c" using c by simp
  ultimately show ?thesis by linarith
qed

lemma slicer_concat:
  assumes "0 < cs"
  shows "\<exists>chunks. slicer xs cs = Inr chunks \<and> concat chunks = xs"
proof -
  let ?c = "nat cs"
  have c: "0 < ?c" using assms by simp
  have "concat (map (\<lambda>i. take ?c (drop i xs)) (map (\<lambda>k. k * ?c) [0 ..< (length xs + ?c - 1) div ?c])) = xs"
    using concat_slices [of ?c xs "(length xs + ?c - 1) div ?c"] ceil_div_cover [OF c, of "length xs"]
    by (simp add: comp_def)
  then show ?thesis using assms by (simp add: slicer_def range_step_def)
qed

lemma frames_send: "frames (send m w) = frames w @ [m]"
  by (simp add: frames_def send_def)

lemma frames_send_chunks:
  "frames (send_chunks cs chunks w) =
     frames w @ map (\<lambda>c. ResponseBody c (int (length c) = cs)) chunks"
  by (induction chunks arbitrary: w) (simp_all add: frames_send)

lemma send_chunks_eq:
  "send_chunks cs chunks w =
     w\<lparr>trace := trace w @ map (\<lambda>c. Sent (ResponseBody c (int (length c) = cs))) chunks\<rparr>"
  by (induction chunks arbitrary: w) (simp_all add: send_def)

lemma frames_run_background: "frames (run_background bg w) = frames w"
  by (simp add: run_background_def frames_def split: option.splits)

section \<open>What the hooks leave alone\<close>

lemma file_pre_call_frame:
  assumes "FileResponse_pre_call L self w = (r, self1, w1)"
  shows "self1 = self\<lparr>raw_headers := raw_headers self1\<rparr> \<and> w1 = w"
  using assms
  by (auto simp: FileResponse_pre_call_def set_stat_headers_def Let_def
      split: option.splits sum.splits error.splits if_splits)

lemma bytes_pre_call_frame:
  assumes "BytesFileResponse_pre_call L self w = (r, self1, w1)"
  shows "self1 = self\<lparr>raw_headers := raw_headers self1\<rparr> \<and> w1 = w\<lparr>ticks := ticks w1\<rparr>"
  using assms
  by (auto simp: BytesFileResponse_pre_call_def set_stat_headers_def monotonic_def Let_def
      split: option.splits sum.splits if_splits prod.splits)

lemma text_pre_call_eq_bytes:
  "TextFileResponse_pre_call L self w = BytesFileResponse_pre_call L self w"
  by (simp add: TextFileResponse_pre_call_def BytesFileResponse_pre_call_def)

lemma pre_call_frame:
  assumes "pre_call L self w = (r, self1, w1)"
  shows "self1 = self\<lparr>raw_headers := raw_headers self1\<rparr> \<and> w1 = w\<lparr>ticks := ticks w1\<rparr>"
proof (cases "klass self")
  case FileResponse
  with assms file_pre_call_frame [of L self w r self1 w1] show ?thesis
    by (simp add: pre_call_def)
next
  case BytesFileResponse
  with assms bytes_pre_call_frame [of L self w r self1 w1] show ?thesis
    by (simp add: pre_call_def)
next
  case TextFileResponse
  with assms bytes_pre_call_frame [of L self w r self1 w1] show ?thesis
    by (simp add: pre_call_def text_pre_call_eq_bytes)
next
  case JsonFileResponse
  with assms bytes_pre_call_frame [of L self w r self1 w1] show ?thesis
    by (simp add: pre_call_def)
qed

section \<open>The call on a request other than HEAD\<close>

lemma open_file_send: "open_file p (send m w) = open_file p w"
  by (auto simp: open_file_def send_def split: option.splits)

lemma iterate_content_send: "iterate_content self cs (send m w) = iterate_content self cs w"
  by (simp add: iterate_content_def FileResponse_iterate_content_def
      BytesFileResponse_iterate_content_def TextFileResponse_iterate_content_def
      open_file_send split: klass.splits)

lemma call_not_head:
  assumes "pre_call L self w = (Inr (), self1, w1)" and "str_upper (http_method sc) \<noteq> ''HEAD''"
    and "iterate_content self1 (chunk_size self1) w1 = Inr chunks"
  shows "call L self sc w =
           (Inr (), self1,
            run_background (background self1)
              (send_chunks (chunk_size self1) chunks
                 (send (ResponseStart (status_code self1) (raw_headers self1)) w1)))"
  using assms by (simp add: call_def Let_def post_call_def iterate_content_send)

lemma in_memory_iterate_content:
  assumes "klass self \<noteq> FileResponse"
  shows "iterate_content self cs w = slicer (content self) cs"
  using assms
  by (cases "klass self")
    (simp_all add: iterate_content_def BytesFileResponse_iterate_content_def
      TextFileResponse_iterate_content_def)

lemma body_frames_bodies:
  "body_frames (map (\<lambda>c. ResponseBody c (f c)) chunks) = map (\<lambda>c. ResponseBody c (f c)) chunks"
  by (induction chunks) (simp_all add: body_frames_def)

text \<open>
  The in-memory classes: on a request other than HEAD, with a positive chunk size and a
  pre-send hook that succeeds, the call succeeds and the payloads of the body frames, in
  order, make up the content.
\<close>

lemma in_memory_body_reassembles:
  assumes mem: "klass self \<noteq> FileResponse" and cs: "0 < chunk_size self"
    and nh: "str_upper (http_method sc) \<noteq> ''HEAD''"
    and hook: "fst (pre_call L self w) = Inr ()"
  shows "\<exists>self' w' hs chunks. call L self sc w = (Inr (), self', w')
           \<and> frames w' = frames w @ ResponseStart (status_code self) hs
                 # map (\<lambda>c. ResponseBody c (int (length c) = chunk_size self)) chunks
           \<and> concat chunks = content self"
proof -
  obtain self1 w1 where pc: "pre_call L self w = (Inr (), self1, w1)"
    using hook by (cases "pre_call L self w") auto
  from pre_call_frame [OF pc] have s1: "self1 = self\<lparr>raw_headers := raw_headers self1\<rparr>"
    and w1: "w1 = w\<lparr>ticks := ticks w1\<rparr>" by simp_all
  have k1: "klass self1 = klass self" "chunk_size self1 = chunk_size self"
    "content self1 = content self" "status_code self1 = status_code self"
    by (subst s1, simp)+
  have fw1: "frames w1 = frames w" by (subst w1) (simp add: frames_def)
  obtain chunks where sl: "slicer (content self) (chunk_size self) = Inr chunks"
    and cc: "concat chunks = content self"
    using slicer_concat [OF cs] by blast
  have it: "iterate_content self1 (chunk_size self1) w1 = Inr chunks"
    using in_memory_iterate_content [of self1] mem k1 sl by simp
  let ?w' = "run_background (background self1)
      (send_chunks (chunk_size self1) chunks
         (send (ResponseStart (status_code self1) (raw_headers self1)) w1))"
  have "call L self sc w = (Inr (), self1, ?w')
        \<and> frames ?w' = frames w @ ResponseStart (status_code self) (raw_headers self1)
              # map (\<lambda>c. ResponseBody c (int (length c) = chunk_size self)) chunks
        \<and> concat chunks = content self"
    using call_not_head [OF pc nh it] cc k1 fw1
    by (simp add: frames_run_background frames_send_chunks frames_send)
  then show ?thesis by blast
qed

lemma big_file_response_eq:
  "big_file_response = \<lparr>klass = FileResponse, chunk_size = 65536, status_code = 200,
     media_type = None, background = None, filename = None, raw_headers = [],
     size_attr = None, mtime = None, path = ''/tmp/big'', stat_result = None, content = []\<rparr>"
  by (simp add: big_file_response_def FileResponse_init_def BaseFileResponse_init_def
      init_headers_def lib0_def Let_def)

text \<open>
  Claim C1: for every content source and every positive chunk threshold, on a request
  other than HEAD the payloads of the emitted body frames, concatenated in emission
  order, are exactly the content bytes. The in-memory classes do so
  (\<open>in_memory_body_reassembles\<close>). \<open>FileResponse.iterate_content\<close> reads the file once
  and stops: on a regular file of 65537 bytes, with the default chunk size of 65536, the
  call returns normally after one body frame of 65536 bytes, marked \<open>more_body\<close>, and
  the last byte of the file is never sent.
\<close>

theorem C1_file_response_reads_once:
  "fst (call lib0 big_file_response get_scope world0) = Inr ()
   \<and> fs world0 ''/tmp/big'' = Some (regular_file (replicate 65537 60))
   \<and> body_frames (frames (snd (snd (call lib0 big_file_response get_scope world0))))
       = [ResponseBody (replicate 65536 60) True]
   \<and> concat (map body (body_frames (frames (snd (snd (call lib0 big_file_response get_scope world0))))))
       \<noteq> node_data (regular_file (replicate 65537 60))"
  by (simp add: big_file_response_eq model_eval fixture_eval str_eval)

lemma slicer_exact_multiple:
  assumes cs: "0 < cs" and len: "length xs = k * nat cs"
  shows "\<exists>chunks. slicer xs cs = Inr chunks \<and> length chunks = k
           \<and> (\<forall>c \<in> set chunks. int (length c) = cs)"
proof -
  let ?c = "nat cs"
  have c: "0 < ?c" using cs by simp
  have m: "(length xs + ?c - 1) div ?c = k"
  proof -
    have e: "length xs + ?c - 1 = (?c - 1) + k * ?c" using len c by simp
    have "((?c - 1) + k * ?c) div ?c = k + (?c - 1) div ?c"
      using c by (intro div_mult_self1) simp
    moreover have "(?c - 1) div ?c = 0" using c by (intro div_less) simp
    ultimately show ?thesis unfolding e by simp
  qed
  have each: "length (take ?c (drop (j * ?c) xs)) = ?c" if "j < k" for j
  proof -
    have "Suc j * ?c \<le> k * ?c" using that by (simp add: Suc_leI mult_le_mono1 del: mult_Suc)
    then have "?c \<le> length xs - j * ?c" using len by simp
    then show ?thesis by simp
  qed
  have "slicer xs cs = Inr (map (\<lambda>i. take ?c (drop i xs)) (map (\<lambda>j. j * ?c) [0 ..< k]))"
    using cs m by (simp add: slicer_def range_step_def)
  moreover have "\<forall>c \<in> set (map (\<lambda>i. take ?c (drop i xs)) (map (\<lambda>j. j * ?c) [0 ..< k])). int (length c) = cs"
    using each cs by auto
  ultimately show ?thesis by simp
qed

lemma exact_bytes_response_eq:
  "exact_bytes_response = \<lparr>klass = BytesFileResponse, chunk_size = 65536, status_code = 200,
     media_type = Some ''image/png'', background = None, filename = Some ''example.png'',
     raw_headers = [(''content-type'', ''image/png''),
                    (''content-disposition'', ''attachment; filename='' @ dquote @ ''example.png'' @ dquote)],
     size_attr = None, mtime = None, path = [], stat_result = None,
     content = replicate 65536 60\<rparr>"
  by (simp add: exact_bytes_response_def model_eval lib0_def str_eval)

lemma empty_bytes_response_eq:
  "empty_bytes_response = \<lparr>klass = BytesFileResponse, chunk_size = 65536, status_code = 200,
     media_type = Some ''image/png'', background = None, filename = Some ''example.png'',
     raw_headers = [(''content-type'', ''image/png''),
                    (''content-disposition'', ''attachment; filename='' @ dquote @ ''example.png'' @ dquote)],
     size_attr = None, mtime = None, path = [], stat_result = None,
     content = []\<rparr>"
  by (simp add: empty_bytes_response_def model_eval lib0_def str_eval)

text \<open>
  Claim C2: on a request other than HEAD, \<open>more_body\<close> is true for every body frame but
  the last, the last frame is shorter than the chunk threshold, and content whose length
  is an exact multiple of the threshold is followed by an explicit empty terminal frame.
  \<open>slicer\<close> yields no empty chunk after the full ones (\<open>slicer_exact_multiple\<close>), and the
  loop of \<open>__call__\<close> sends nothing after the last chunk: content of exactly 65536 bytes
  gives one body frame of 65536 bytes with \<open>more_body\<close> true and no terminal frame, and
  empty content gives no body frame at all.
\<close>

theorem C2_no_terminal_frame:
  "fst (call lib0 exact_bytes_response get_scope world0) = Inr ()
   \<and> int (length (content exact_bytes_response)) = chunk_size exact_bytes_response
   \<and> body_frames (frames (snd (snd (call lib0 exact_bytes_response get_scope world0))))
       = [ResponseBody (replicate 65536 60) True]
   \<and> fst (call lib0 empty_bytes_response get_scope world0) = Inr ()
   \<and> body_frames (frames (snd (snd (call lib0 empty_bytes_response get_scope world0)))) = []"
  by (simp add: exact_bytes_response_eq empty_bytes_response_eq model_eval fixture_eval str_eval)

section \<open>Failures of \<open>FileResponse.pre_call\<close>\<close>

lemma call_pre_call_fails:
  "pre_call L self w = (Inl e, self1, w1) \<Longrightarrow> call L self sc w = (Inl e, self1, w1)"
  by (simp add: call_def)

lemma missing_file_response_eq:
  "missing_file_response = \<lparr>klass = FileResponse, chunk_size = 65536, status_code = 200,
     media_type = Some ''text/plain'', background = None, filename = Some ''404.txt'',
     raw_headers = [(''content-type'', ''text/plain; charset=utf-8''),
                    (''content-disposition'', ''attachment; filename='' @ dquote @ ''404.txt'' @ dquote)],
     size_attr = None, mtime = None, path = ''/tmp/404.txt'', stat_result = None, content = []\<rparr>"
  by (simp add: missing_file_response_def model_eval lib0_def str_eval)

lemma child_response_eq:
  "child_response = \<lparr>klass = FileResponse, chunk_size = 65536, status_code = 200,
     media_type = Some ''text/plain'', background = None, filename = Some ''child.txt'',
     raw_headers = [(''content-type'', ''text/plain; charset=utf-8''),
                    (''content-disposition'', ''attachment; filename='' @ dquote @ ''child.txt'' @ dquote)],
     size_attr = None, mtime = None, path = ''/tmp/xyz/child'', stat_result = None, content = []\<rparr>"
  by (simp add: child_response_def model_eval lib0_def str_eval)

lemma dir_response_eq:
  "dir_response = \<lparr>klass = FileResponse, chunk_size = 65536, status_code = 200,
     media_type = Some ''image/png'', background = None, filename = Some ''example.png'',
     raw_headers = [(''content-type'', ''image/png''),
                    (''content-disposition'', ''attachment; filename='' @ dquote @ ''example.png'' @ dquote)],
     size_attr = None, mtime = None, path = ''/tmp'', stat_result = None, content = []\<rparr>"
  by (simp add: dir_response_def model_eval lib0_def str_eval)

lemma stat_dir_response_eq:
  "stat_dir_response = \<lparr>klass = FileResponse, chunk_size = 65536, status_code = 200,
     media_type = Some ''image/png'', background = None, filename = Some ''example.png'',
     raw_headers = [(''content-type'', ''image/png''),
                    (''content-disposition'', ''attachment; filename='' @ dquote @ ''example.png'' @ dquote)],
     size_attr = Some 4096, mtime = Some 900, path = ''/tmp'',
     stat_result = Some \<lparr>st_mode = 0x41ED, st_size = 4096, st_mtime = 900\<rparr>, content = []\<rparr>"
  by (simp add: stat_dir_response_def model_eval lib0_def directory_def str_eval)

lemma world0_stat:
  "os_stat ''/tmp/404.txt'' world0 = Inl (FileNotFoundError ''/tmp/404.txt'')"
  "os_stat ''/tmp/xyz/child'' world0 = Inl (NotADirectoryError ''/tmp/xyz/child'')"
  "os_stat ''/tmp'' world0 = Inr (node_stat directory)"
  "os_stat ''/tmp/xyz'' world0 = Inr (node_stat (regular_file [60, 102, 105, 108, 101, 62]))"
  by (simp_all add: os_stat_def world0_def)

text \<open>
  Claim C5: a \<open>FileResponse\<close> without a precomputed \<open>stat_result\<close> whose path does not
  exist fails with an error whose message says the path does not exist; one whose path
  is not a regular file fails with a distinct error, whose message says the path is not
  a file; both before any frame is sent. As stated, for every path that does not exist,
  it fails on a path below a regular file: there is no such entry, \<open>os.stat\<close> refuses
  the path with \<open>NotADirectoryError\<close>, \<open>pre_call\<close> catches \<open>FileNotFoundError\<close> only, and
  the call ends with the error of \<open>os.stat\<close>.
\<close>

theorem C5_below_regular_file_counterexample:
  "klass child_response = FileResponse \<and> stat_result child_response = None
   \<and> path child_response = ''/tmp/xyz/child''
   \<and> fs world0 ''/tmp/xyz/child'' = None
   \<and> call lib0 child_response get_scope world0
       = (Inl (NotADirectoryError ''/tmp/xyz/child''), child_response, world0)"
proof -
  have "pre_call lib0 child_response world0
       = (Inl (NotADirectoryError ''/tmp/xyz/child''), child_response, world0)"
    by (simp add: pre_call_def FileResponse_pre_call_def child_response_eq world0_stat Let_def)
  then have "call lib0 child_response get_scope world0
       = (Inl (NotADirectoryError ''/tmp/xyz/child''), child_response, world0)"
    by (rule call_pre_call_fails)
  then show ?thesis by (simp add: child_response_eq world0_def)
qed

text \<open>
  Claim C5, amended: a \<open>FileResponse\<close> without a precomputed \<open>stat_result\<close> fails with an
  error whose message says the path does not exist when \<open>os.stat\<close> reports the path as
  not found; any other error of \<open>os.stat\<close> ends the call as it is; when the entry that
  \<open>os.stat\<close> finds is not a regular file and the identity headers could be computed from
  it, or when the precomputed status is not that of a regular file, the call fails with a
  distinct error, whose message says the path is not a file. In each case the world is
  returned as it was, so no frame has been sent.
\<close>

theorem C5_missing_or_not_a_file:
  assumes "klass self = FileResponse"
  shows "(\<forall>x. stat_result self = None \<and> os_stat (path self) w = Inl (FileNotFoundError x) \<longrightarrow>
            call L self sc w =
              (Inl (RuntimeError (''File at path '' @ path self @ '' does not exist.'')), self, w))
       \<and> (\<forall>e. stat_result self = None \<and> os_stat (path self) w = Inl e
                \<and> (\<forall>x. e \<noteq> FileNotFoundError x) \<longrightarrow>
            call L self sc w = (Inl e, self, w))
       \<and> (\<forall>st self1. stat_result self = None \<and> os_stat (path self) w = Inr st
                \<and> set_stat_headers L self (st_size st) (st_mtime st) = Inr self1
                \<and> \<not> S_ISREG (st_mode st) \<longrightarrow>
            call L self sc w =
              (Inl (RuntimeError (''File at path '' @ path self @ '' is not a file.'')), self1, w))
       \<and> (\<forall>st. stat_result self = Some st \<and> \<not> S_ISREG (st_mode st) \<longrightarrow>
            call L self sc w =
              (Inl (RuntimeError (''File at path '' @ path self @ '' is not a file.'')), self, w))
       \<and> ''File at path '' @ path self @ '' does not exist.''
            \<noteq> ''File at path '' @ path self @ '' is not a file.''"
proof (intro conjI allI impI)
  fix x
  assume "stat_result self = None \<and> os_stat (path self) w = Inl (FileNotFoundError x)"
  then have "pre_call L self w =
      (Inl (RuntimeError (''File at path '' @ path self @ '' does not exist.'')), self, w)"
    using assms by (simp add: pre_call_def FileResponse_pre_call_def)
  then show "call L self sc w =
      (Inl (RuntimeError (''File at path '' @ path self @ '' does not exist.'')), self, w)"
    by (rule call_pre_call_fails)
next
  fix e
  assume a: "stat_result self = None \<and> os_stat (path self) w = Inl e
      \<and> (\<forall>x. e \<noteq> FileNotFoundError x)"
  then have "pre_call L self w = (Inl e, self, w)"
    using assms by (cases e) (simp_all add: pre_call_def FileResponse_pre_call_def)
  then show "call L self sc w = (Inl e, self, w)"
    by (rule call_pre_call_fails)
next
  fix st self1
  assume "stat_result self = None \<and> os_stat (path self) w = Inr st
      \<and> set_stat_headers L self (st_size st) (st_mtime st) = Inr self1
      \<and> \<not> S_ISREG (st_mode st)"
  then have "pre_call L self w =
      (Inl (RuntimeError (''File at path '' @ path self @ '' is not a file.'')), self1, w)"
    using assms by (simp add: pre_call_def FileResponse_pre_call_def)
  then show "call L self sc w =
      (Inl (RuntimeError (''File at path '' @ path self @ '' is not a file.'')), self1, w)"
    by (rule call_pre_call_fails)
next
  fix st
  assume "stat_result self = Some st \<and> \<not> S_ISREG (st_mode st)"
  then have "pre_call L self w =
      (Inl (RuntimeError (''File at path '' @ path self @ '' is not a file.'')), self, w)"
    using assms by (simp add: pre_call_def FileResponse_pre_call_def)
  then show "call L self sc w =
      (Inl (RuntimeError (''File at path '' @ path self @ '' is not a file.'')), self, w)"
    by (rule call_pre_call_fails)
next
  have "length (''File at path '' @ path self @ '' does not exist.'')
        \<noteq> length (''File at path '' @ path self @ '' is not a file.'')" by simp
  then show "''File at path '' @ path self @ '' does not exist.''
        \<noteq> ''File at path '' @ path self @ '' is not a file.''"
    by metis
qed

lemma dir_set_stat_headers:
  "set_stat_headers lib0 dir_response 4096 900 = Inr (dir_response\<lparr>raw_headers := dir_headers\<rparr>)"
  by (simp add: set_stat_headers_def dir_response_eq dir_headers_def setdefault_def Let_def
      lib0_def str_eval)

theorem C5_missing_or_not_a_file_witness:
  "os_stat (path missing_file_response) world0 = Inl (FileNotFoundError ''/tmp/404.txt'')
   \<and> call lib0 missing_file_response get_scope world0 =
       (Inl (RuntimeError ''File at path /tmp/404.txt does not exist.''), missing_file_response, world0)
   \<and> os_stat (path child_response) world0 = Inl (NotADirectoryError ''/tmp/xyz/child'')
   \<and> call lib0 child_response get_scope world0 =
       (Inl (NotADirectoryError ''/tmp/xyz/child''), child_response, world0)
   \<and> os_stat (path dir_response) world0 = Inr (node_stat directory)
   \<and> \<not> S_ISREG (st_mode (node_stat directory))
   \<and> call lib0 dir_response get_scope world0 =
       (Inl (RuntimeError ''File at path /tmp is not a file.''),
        dir_response\<lparr>raw_headers := dir_headers\<rparr>, world0)
   \<and> call lib0 stat_dir_response get_scope world0 =
       (Inl (RuntimeError ''File at path /tmp is not a file.''), stat_dir_response, world0)
   \<and> trace world0 = []"
proof -
  have k: "klass missing_file_response = FileResponse" "klass dir_response = FileResponse"
    "klass stat_dir_response = FileResponse" "klass child_response = FileResponse"
    by (simp_all add: missing_file_response_eq dir_response_eq stat_dir_response_eq
        child_response_eq)
  have p: "path missing_file_response = ''/tmp/404.txt''" "path dir_response = ''/tmp''"
    "path stat_dir_response = ''/tmp''" "path child_response = ''/tmp/xyz/child''"
    by (simp_all add: missing_file_response_eq dir_response_eq stat_dir_response_eq
        child_response_eq)
  have a: "stat_result missing_file_response = None
           \<and> os_stat (path missing_file_response) world0 = Inl (FileNotFoundError ''/tmp/404.txt'')"
    by (simp add: p world0_stat) (simp add: missing_file_response_eq)
  have b: "stat_result child_response = None
           \<and> os_stat (path child_response) world0 = Inl (NotADirectoryError ''/tmp/xyz/child'')
           \<and> (\<forall>x. NotADirectoryError ''/tmp/xyz/child'' \<noteq> FileNotFoundError x)"
    by (simp add: p world0_stat) (simp add: child_response_eq)
  have c: "stat_result dir_response = None
           \<and> os_stat (path dir_response) world0 = Inr (node_stat directory)
           \<and> set_stat_headers lib0 dir_response (st_size (node_stat directory))
                (st_mtime (node_stat directory)) = Inr (dir_response\<lparr>raw_headers := dir_headers\<rparr>)
           \<and> \<not> S_ISREG (st_mode (node_stat directory))"
    using dir_set_stat_headers
    by (simp add: p world0_stat) (simp add: dir_response_eq directory_def S_ISREG_def)
  have d: "stat_result stat_dir_response = Some (node_stat directory)
           \<and> \<not> S_ISREG (st_mode (node_stat directory))"
    by (simp add: stat_dir_response_eq directory_def S_ISREG_def)
  note t1 = C5_missing_or_not_a_file [OF k(1), of world0 lib0 get_scope, THEN conjunct1,
      rule_format, OF a]
  note t2 = C5_missing_or_not_a_file [OF k(4), of world0 lib0 get_scope, THEN conjunct2,
      THEN conjunct1, rule_format, OF b]
  note t3 = C5_missing_or_not_a_file [OF k(2), of world0 lib0 get_scope, THEN conjunct2,
      THEN conjunct2, THEN conjunct1, rule_format, OF c]
  note t4 = C5_missing_or_not_a_file [OF k(3), of world0 lib0 get_scope, THEN conjunct2,
      THEN conjunct2, THEN conjunct2, THEN conjunct1, rule_format, OF d]
  show ?thesis
    using t1 t2 t3 t4 a b c d by (simp add: p world0_def)
qed

section \<open>The call on a HEAD request\<close>

lemma lower_char_head:
  "lower_char CHR ''H'' = CHR ''h''" "lower_char CHR ''E'' = CHR ''e''"
  "lower_char CHR ''A'' = CHR ''a''" "lower_char CHR ''D'' = CHR ''d''"
  by (simp_all add: lower_char_def ascii_lowercase_def ascii_uppercase_def)

lemma upper_char_head:
  "upper_char CHR ''H'' = CHR ''H''" "upper_char CHR ''h'' = CHR ''H''"
  "upper_char CHR ''E'' = CHR ''E''" "upper_char CHR ''e'' = CHR ''E''"
  "upper_char CHR ''A'' = CHR ''A''" "upper_char CHR ''a'' = CHR ''A''"
  "upper_char CHR ''D'' = CHR ''D''" "upper_char CHR ''d'' = CHR ''D''"
  by (simp_all add: upper_char_def ascii_lowercase_def ascii_uppercase_def)

lemma head_any_case:
  assumes "list_all2 (\<lambda>c h. c = h \<or> c = lower_char h) m ''HEAD''"
  shows "str_upper m = ''HEAD''"
proof -
  from assms obtain a b c d where m: "m = [a, b, c, d]"
    and a: "a = CHR ''H'' \<or> a = CHR ''h''" and b: "b = CHR ''E'' \<or> b = CHR ''e''"
    and c: "c = CHR ''A'' \<or> c = CHR ''a''" and d: "d = CHR ''D'' \<or> d = CHR ''d''"
    unfolding list_all2_Cons2 lower_char_head by blast
  have "upper_char a = CHR ''H''" using a by (elim disjE) (simp_all only: upper_char_head)
  moreover have "upper_char b = CHR ''E''" using b by (elim disjE) (simp_all only: upper_char_head)
  moreover have "upper_char c = CHR ''A''" using c by (elim disjE) (simp_all only: upper_char_head)
  moreover have "upper_char d = CHR ''D''" using d by (elim disjE) (simp_all only: upper_char_head)
  ultimately show ?thesis using m by (simp add: str_upper_def)
qed

lemma call_head:
  assumes "pre_call L self w = (Inr (), self1, w1)" and "str_upper (http_method sc) = ''HEAD''"
  shows "call L self sc w =
           (Inr (), self1,
            run_background (background self1)
              (send (ResponseBody [] False)
                 (send (ResponseStart (status_code self1) (raw_headers self1)) w1)))"
  using assms by (simp add: call_def Let_def post_call_def)

lemma pre_call_frames:
  assumes "pre_call L self w = (r, self1, w1)"
  shows "frames w1 = frames w" and "trace w1 = trace w" and "user w1 = user w"
    and "fs w1 = fs w"
proof -
  from pre_call_frame [OF assms] have w1: "w1 = w\<lparr>ticks := ticks w1\<rparr>" by simp
  show "frames w1 = frames w" by (subst w1) (simp add: frames_def)
  show "trace w1 = trace w" by (subst w1) simp
  show "user w1 = user w" by (subst w1) simp
  show "fs w1 = fs w" by (subst w1) simp
qed

lemma pre_call_attrs:
  assumes "pre_call L self w = (r, self1, w1)"
  shows "klass self1 = klass self" and "chunk_size self1 = chunk_size self"
    and "status_code self1 = status_code self" and "background self1 = background self"
    and "content self1 = content self" and "path self1 = path self"
proof -
  from pre_call_frame [OF assms] have s1: "self1 = self\<lparr>raw_headers := raw_headers self1\<rparr>"
    by simp
  show "klass self1 = klass self" by (subst s1) simp
  show "chunk_size self1 = chunk_size self" by (subst s1) simp
  show "status_code self1 = status_code self" by (subst s1) simp
  show "background self1 = background self" by (subst s1) simp
  show "content self1 = content self" by (subst s1) simp
  show "path self1 = path self" by (subst s1) simp
qed

lemma xyz_file_response_eq:
  "xyz_file_response = \<lparr>klass = FileResponse, chunk_size = 65536, status_code = 200,
     media_type = Some ''image/png'', background = Some cleanup_task,
     filename = Some ''example.png'',
     raw_headers = [(''content-type'', ''image/png''),
                    (''content-disposition'', ''attachment; filename='' @ dquote @ ''example.png'' @ dquote)],
     size_attr = None, mtime = None, path = ''/tmp/xyz'', stat_result = None, content = []\<rparr>"
  by (simp add: xyz_file_response_def model_eval lib0_def str_eval)

lemma xyz_pre_call:
  "pre_call lib0 xyz_file_response world0 =
     (Inr (), xyz_file_response\<lparr>raw_headers := xyz_headers\<rparr>, world0)"
  by (simp add: xyz_file_response_eq xyz_headers_def pre_call_def FileResponse_pre_call_def
      world0_stat set_stat_headers_def setdefault_def S_ISREG_def Let_def lib0_def
      regular_file_def str_eval)

text \<open>
  Claim C6: for every class, a call with request method HEAD, in any letter case, emits
  the start frame with the status and the headers left by the pre-send hook, then exactly
  one body frame, empty and with \<open>more_body\<close> false; the content iterator is not run, so
  no content chunk is produced (the call does not depend on the content or the file).
\<close>

theorem C6_head_request:
  assumes "list_all2 (\<lambda>c h. c = h \<or> c = lower_char h) (http_method sc) ''HEAD''"
    and "pre_call L self w = (Inr (), self1, w1)"
  shows "\<exists>w'. call L self sc w = (Inr (), self1, w')
           \<and> frames w' = frames w @ [ResponseStart (status_code self) (raw_headers self1),
                                     ResponseBody [] False]"
proof -
  have h: "str_upper (http_method sc) = ''HEAD''" using assms(1) by (rule head_any_case)
  let ?w' = "run_background (background self1)
      (send (ResponseBody [] False)
         (send (ResponseStart (status_code self1) (raw_headers self1)) w1))"
  have "call L self sc w = (Inr (), self1, ?w')" using call_head [OF assms(2) h] .
  moreover have "frames ?w' = frames w @ [ResponseStart (status_code self) (raw_headers self1),
                                     ResponseBody [] False]"
    using pre_call_frames(1) [OF assms(2)] pre_call_attrs(3) [OF assms(2)]
    by (simp add: frames_run_background frames_send)
  ultimately show ?thesis by blast
qed

theorem C6_head_request_witness:
  "list_all2 (\<lambda>c h. c = h \<or> c = lower_char h) (http_method head_scope) ''HEAD''
   \<and> pre_call lib0 xyz_file_response world0
       = (Inr (), xyz_file_response\<lparr>raw_headers := xyz_headers\<rparr>, world0)
   \<and> frames (snd (snd (call lib0 xyz_file_response head_scope world0)))
       = [ResponseStart 200 xyz_headers, ResponseBody [] False]"
proof -
  have m: "list_all2 (\<lambda>c h. c = h \<or> c = lower_char h) (http_method head_scope) ''HEAD''"
    by (simp add: head_scope_def lower_char_head)
  have s: "status_code xyz_file_response = 200" by (simp add: xyz_file_response_eq)
  have f: "frames world0 = []" by (simp add: frames_def world0_def)
  from C6_head_request [OF m xyz_pre_call] s f
  have "frames (snd (snd (call lib0 xyz_file_response head_scope world0)))
       = [ResponseStart 200 xyz_headers, ResponseBody [] False]"
    by auto
  with m xyz_pre_call show ?thesis by simp
qed

section \<open>The background task\<close>

lemma call_success_cases:
  assumes "call L self sc w = (Inr (), self', w')"
  obtains self1 w1 where "pre_call L self w = (Inr (), self1, w1)"
    and "str_upper (http_method sc) = ''HEAD''"
  | self1 w1 chunks where "pre_call L self w = (Inr (), self1, w1)"
    and "str_upper (http_method sc) \<noteq> ''HEAD''"
    and "iterate_content self1 (chunk_size self1) w1 = Inr chunks"
proof -
  obtain r self1 w1 where pc: "pre_call L self w = (r, self1, w1)"
    by (cases "pre_call L self w") auto
  show thesis
  proof (cases r)
    case (Inl e)
    with pc assms show ?thesis by (simp add: call_def)
  next
    case (Inr u)
    then have pc': "pre_call L self w = (Inr (), self1, w1)" using pc by simp
    show ?thesis
    proof (cases "str_upper (http_method sc) = ''HEAD''")
      case True
      with pc' that(1) show ?thesis by blast
    next
      case False
      show ?thesis
      proof (cases "iterate_content self1 (chunk_size self1) w1")
        case (Inl e)
        with pc' False assms show ?thesis
          by (simp add: call_def Let_def iterate_content_send)
      next
        case (Inr chunks)
        with pc' False that(2) show ?thesis by blast
      qed
    qed
  qed
qed

lemma count_background_run:
  "count_list (xs @ map Sent ms @ [BackgroundRun]) BackgroundRun
     = count_list xs BackgroundRun + 1"
  by (induction ms) simp_all

lemma frames_sent_then_background:
  "frames (v\<lparr>trace := trace w @ map Sent ms @ [BackgroundRun], user := u\<rparr>) = frames w @ ms"
  by (induction ms rule: rev_induct) (simp_all add: frames_def)

text \<open>
  Claim C8: a cleanup task supplied at construction runs exactly once per call, after the
  last body frame has been sent and the post-send hook has returned, and has run to
  completion when the call returns. For a call that returns normally: what the call adds
  to the trace is its frames followed by one run of the task, which is the last event,
  and the application state is the task's result on the state the call started with.
\<close>

theorem C8_background_once_after_body:
  assumes "call L self sc w = (Inr (), self', w')" and "background self = Some task"
  shows "\<exists>ms. trace w' = trace w @ map Sent ms @ [BackgroundRun]
           \<and> ms \<noteq> [] \<and> frames w' = frames w @ ms
           \<and> count_list (trace w') BackgroundRun = count_list (trace w) BackgroundRun + 1
           \<and> user w' = task (user w)"
proof -
  note cnt = count_background_run and fr = frames_sent_then_background
  from assms(1) show ?thesis
  proof (cases rule: call_success_cases)
    case (1 self1 w1)
    let ?ms = "[ResponseStart (status_code self1) (raw_headers self1), ResponseBody [] False]"
    have bg: "background self1 = Some task"
      using pre_call_attrs(4) [OF 1(1)] assms(2) by simp
    have "w' = w1\<lparr>trace := trace w @ map Sent ?ms @ [BackgroundRun], user := task (user w)\<rparr>"
      using call_head [OF 1(1) 1(2)] assms(1) bg pre_call_frames(2,3) [OF 1(1)]
      by (simp add: run_background_def send_def)
    then have "trace w' = trace w @ map Sent ?ms @ [BackgroundRun] \<and> ?ms \<noteq> []
        \<and> frames w' = frames w @ ?ms
        \<and> count_list (trace w') BackgroundRun = count_list (trace w) BackgroundRun + 1
        \<and> user w' = task (user w)"
      using cnt [of "trace w" ?ms] fr [where v = w1 and w = w and ms = ?ms] by simp
    then show ?thesis by blast
  next
    case (2 self1 w1 chunks)
    let ?ms = "ResponseStart (status_code self1) (raw_headers self1)
        # map (\<lambda>c. ResponseBody c (int (length c) = chunk_size self1)) chunks"
    have bg: "background self1 = Some task"
      using pre_call_attrs(4) [OF 2(1)] assms(2) by simp
    have "w' = w1\<lparr>trace := trace w @ map Sent ?ms @ [BackgroundRun], user := task (user w)\<rparr>"
      using call_not_head [OF 2(1) 2(2) 2(3)] assms(1) bg pre_call_frames(2,3) [OF 2(1)]
      by (simp add: run_background_def send_def send_chunks_eq comp_def)
    then have "trace w' = trace w @ map Sent ?ms @ [BackgroundRun] \<and> ?ms \<noteq> []
        \<and> frames w' = frames w @ ?ms
        \<and> count_list (trace w') BackgroundRun = count_list (trace w) BackgroundRun + 1
        \<and> user w' = task (user w)"
      using cnt [of "trace w" ?ms] fr [where v = w1 and w = w and ms = ?ms] by simp
    then show ?thesis by blast
  qed
qed

lemma world0_sel:
  "trace world0 = []" "user world0 = []" "ticks world0 = 0"
  "fs world0 ''/tmp/xyz'' = Some (regular_file [60, 102, 105, 108, 101, 62])"
  "fs world0 ''/tmp/404.txt'' = None"
  by (simp_all add: world0_def)

lemma world0_open:
  "open_file ''/tmp/xyz'' world0 = Inr [60, 102, 105, 108, 101, 62]"
  by (simp add: open_file_def world0_def regular_file_def S_ISDIR_def)

lemma xyz_iterate_content:
  "iterate_content (xyz_file_response\<lparr>raw_headers := xyz_headers\<rparr>) 65536 world0
     = Inr [[60, 102, 105, 108, 101, 62]]"
  by (simp add: xyz_file_response_eq iterate_content_def FileResponse_iterate_content_def
      world0_open file_read_def)

lemma xyz_call_get:
  "call lib0 xyz_file_response get_scope world0 =
     (Inr (), xyz_file_response\<lparr>raw_headers := xyz_headers\<rparr>,
      world0\<lparr>trace := [Sent (ResponseStart 200 xyz_headers),
                          Sent (ResponseBody [60, 102, 105, 108, 101, 62] False),
                          BackgroundRun],
               user := cleanup_task []\<rparr>)"
proof -
  have nh: "str_upper (http_method get_scope) \<noteq> ''HEAD''"
    by (simp add: get_scope_def str_upper_def)
  have it: "iterate_content (xyz_file_response\<lparr>raw_headers := xyz_headers\<rparr>)
      (chunk_size (xyz_file_response\<lparr>raw_headers := xyz_headers\<rparr>)) world0
      = Inr [[60, 102, 105, 108, 101, 62]]"
    using xyz_iterate_content by (simp add: xyz_file_response_eq)
  show ?thesis
    unfolding call_not_head [OF xyz_pre_call nh it]
    by (simp add: xyz_file_response_eq run_background_def send_def world0_sel)
qed

theorem C8_background_once_after_body_witness:
  "fst (call lib0 xyz_file_response get_scope world0) = Inr ()
   \<and> background xyz_file_response = Some cleanup_task
   \<and> trace (snd (snd (call lib0 xyz_file_response get_scope world0)))
       = [Sent (ResponseStart 200 xyz_headers),
          Sent (ResponseBody [60, 102, 105, 108, 101, 62] False), BackgroundRun]
   \<and> count_list (trace (snd (snd (call lib0 xyz_file_response get_scope world0)))) BackgroundRun = 1
   \<and> user world0 = []
   \<and> user (snd (snd (call lib0 xyz_file_response get_scope world0))) = ''6, 7, 8, 9''"
proof -
  have b: "background xyz_file_response = Some cleanup_task"
    by (simp add: xyz_file_response_eq)
  from C8_background_once_after_body [OF xyz_call_get b]
  have "count_list (trace (snd (snd (call lib0 xyz_file_response get_scope world0)))) BackgroundRun = 1"
    and "user (snd (snd (call lib0 xyz_file_response get_scope world0))) = cleanup_task []"
    by (auto simp: xyz_call_get world0_sel)
  then show ?thesis
    using b by (simp add: xyz_call_get world0_sel cleanup_task_def)
qed

section \<open>The pathsend extension\<close>

lemma call_ignores_extensions: "call L self (sc\<lparr>extensions := ex\<rparr>) w = call L self sc w"
proof -
  have "http_method (sc\<lparr>extensions := ex\<rparr>) = http_method sc" by simp
  then show ?thesis unfolding call_def by (simp only:)
qed

lemma frames_world0: "frames world0 = []"
  by (simp add: frames_def world0_sel)

text \<open>
  Claim C4: a \<open>FileResponse\<close> called with a request other than HEAD whose scope announces
  the \<open>http.response.pathsend\<close> extension emits a frame carrying the path of the file
  instead of body frames. It does not: \<open>__call__\<close> never reads the extensions of the
  scope, and on such a scope the file is sent as a body frame.
\<close>

theorem C4_pathsend_counterexample:
  "klass xyz_file_response = FileResponse
   \<and> str_upper (http_method pathsend_scope) \<noteq> ''HEAD''
   \<and> ''http.response.pathsend'' \<in> set (extensions pathsend_scope)
   \<and> frames (snd (snd (call lib0 xyz_file_response pathsend_scope world0)))
       = [ResponseStart 200 xyz_headers, ResponseBody [60, 102, 105, 108, 101, 62] False]
   \<and> ResponsePathsend (path xyz_file_response)
       \<notin> set (frames (snd (snd (call lib0 xyz_file_response pathsend_scope world0))))"
proof -
  have nh: "str_upper (http_method pathsend_scope) \<noteq> ''HEAD''"
    by (simp add: pathsend_scope_def str_upper_def upper_char_def ascii_lowercase_def
        ascii_uppercase_def)
  have it: "iterate_content (xyz_file_response\<lparr>raw_headers := xyz_headers\<rparr>)
      (chunk_size (xyz_file_response\<lparr>raw_headers := xyz_headers\<rparr>)) world0
      = Inr [[60, 102, 105, 108, 101, 62]]"
    using xyz_iterate_content by (simp add: xyz_file_response_eq)
  have "frames (snd (snd (call lib0 xyz_file_response pathsend_scope world0)))
       = [ResponseStart 200 xyz_headers, ResponseBody [60, 102, 105, 108, 101, 62] False]"
    unfolding call_not_head [OF xyz_pre_call nh it]
    by (simp add: xyz_file_response_eq frames_run_background frames_send frames_world0)
  then show ?thesis
    using nh by (simp add: xyz_file_response_eq pathsend_scope_def)
qed

lemma call_iterate_fails:
  assumes "pre_call L self w = (Inr (), self1, w1)" and "str_upper (http_method sc) \<noteq> ''HEAD''"
    and "iterate_content self1 (chunk_size self1) w1 = Inl e"
  shows "call L self sc w =
           (Inl e, self1, send (ResponseStart (status_code self1) (raw_headers self1)) w1)"
  using assms by (simp add: call_def Let_def iterate_content_send)

text \<open>
  Whatever the outcome, a call adds start and body frames only to those on the channel.
\<close>

lemma call_adds_start_and_body_frames:
  "\<exists>ms. frames (snd (snd (call L self sc w))) = frames w @ ms
        \<and> (\<forall>m \<in> set ms. message_type m = ''http.response.start''
                          \<or> message_type m = ''http.response.body'')"
proof -
  obtain r self1 w1 where pc: "pre_call L self w = (r, self1, w1)"
    by (cases "pre_call L self w") auto
  note fw = pre_call_frames(1) [OF pc]
  show ?thesis
  proof (cases r)
    case (Inl e)
    with pc have "call L self sc w = (Inl e, self1, w1)" by (simp add: call_pre_call_fails)
    with fw have "frames (snd (snd (call L self sc w))) = frames w @ []" by simp
    then show ?thesis by fastforce
  next
    case (Inr u)
    then have pc': "pre_call L self w = (Inr (), self1, w1)" using pc by simp
    show ?thesis
    proof (cases "str_upper (http_method sc) = ''HEAD''")
      case True
      have "frames (snd (snd (call L self sc w))) = frames w @
          [ResponseStart (status_code self1) (raw_headers self1), ResponseBody [] False]"
        unfolding call_head [OF pc' True] using fw
        by (simp add: frames_run_background frames_send)
      then show ?thesis by fastforce
    next
      case False
      show ?thesis
      proof (cases "iterate_content self1 (chunk_size self1) w1")
        case (Inl e)
        have "frames (snd (snd (call L self sc w))) = frames w @
            [ResponseStart (status_code self1) (raw_headers self1)]"
          unfolding call_iterate_fails [OF pc' False Inl] using fw by (simp add: frames_send)
        then show ?thesis by fastforce
      next
        case (Inr chunks)
        have "frames (snd (snd (call L self sc w))) = frames w @
            (ResponseStart (status_code self1) (raw_headers self1)
             # map (\<lambda>c. ResponseBody c (int (length c) = chunk_size self1)) chunks)"
          unfolding call_not_head [OF pc' False Inr] using fw
          by (simp add: frames_run_background frames_send_chunks frames_send)
        moreover have "\<forall>m \<in> set (ResponseStart (status_code self1) (raw_headers self1)
             # map (\<lambda>c. ResponseBody c (int (length c) = chunk_size self1)) chunks).
            message_type m = ''http.response.start'' \<or> message_type m = ''http.response.body''"
          by auto
        ultimately show ?thesis by blast
      qed
    qed
  qed
qed

text \<open>
  Claim C4, amended: a \<open>FileResponse\<close> called with a request other than HEAD whose scope
  announces the \<open>http.response.pathsend\<close> extension emits the frames it emits without the
  extension: the call (of any class, for any request) does not depend on the extensions
  of the scope, and every frame it emits is a start frame or a body frame; none carries
  the path of the file.
\<close>

theorem C4_pathsend_ignored:
  "call L self (sc\<lparr>extensions := ex\<rparr>) w = call L self sc w
   \<and> (\<exists>ms. frames (snd (snd (call L self sc w))) = frames w @ ms
          \<and> (\<forall>m \<in> set ms. message_type m = ''http.response.start''
                            \<or> message_type m = ''http.response.body'')
          \<and> (\<forall>p. ResponsePathsend p \<notin> set ms))"
proof -
  obtain ms where ms: "frames (snd (snd (call L self sc w))) = frames w @ ms"
    and ty: "\<forall>m \<in> set ms. message_type m = ''http.response.start''
                          \<or> message_type m = ''http.response.body''"
    using call_adds_start_and_body_frames by blast
  have "ResponsePathsend p \<notin> set ms" for p
  proof
    assume "ResponsePathsend p \<in> set ms"
    with ty have "message_type (ResponsePathsend p) = ''http.response.start''
        \<or> message_type (ResponsePathsend p) = ''http.response.body''" by blast
    then show False by simp
  qed
  with ms ty call_ignores_extensions show ?thesis by blast
qed

theorem C4_pathsend_ignored_witness:
  "klass xyz_file_response = FileResponse
   \<and> str_upper (http_method pathsend_scope) \<noteq> ''HEAD''
   \<and> extensions pathsend_scope = [''http.response.pathsend'']
   \<and> call lib0 xyz_file_response (pathsend_scope\<lparr>extensions := []\<rparr>) world0
       = call lib0 xyz_file_response pathsend_scope world0
   \<and> frames world0 = []
   \<and> ResponsePathsend ''/tmp/xyz''
       \<notin> set (frames (snd (snd (call lib0 xyz_file_response pathsend_scope world0))))"
proof -
  have k: "klass xyz_file_response = FileResponse" by (simp add: xyz_file_response_eq)
  have nh: "str_upper (http_method pathsend_scope) \<noteq> ''HEAD''"
    by (simp add: pathsend_scope_def str_upper_def upper_char_def ascii_lowercase_def
        ascii_uppercase_def)
  note t = C4_pathsend_ignored [where L = lib0 and self = xyz_file_response
      and sc = pathsend_scope and ex = "[]" and w = world0]
  from t have e: "call lib0 xyz_file_response (pathsend_scope\<lparr>extensions := []\<rparr>) world0
       = call lib0 xyz_file_response pathsend_scope world0" by blast
  from t obtain ms where
    "frames (snd (snd (call lib0 xyz_file_response pathsend_scope world0))) = frames world0 @ ms"
    and "\<forall>p. ResponsePathsend p \<notin> set ms" by blast
  then have n: "ResponsePathsend ''/tmp/xyz''
       \<notin> set (frames (snd (snd (call lib0 xyz_file_response pathsend_scope world0))))"
    by (simp add: frames_world0)
  from k nh e n show ?thesis by (simp add: frames_world0 pathsend_scope_def)
qed

section \<open>\<open>JsonFileResponse\<close> against \<open>BytesFileResponse\<close>\<close>

lemma pre_call_json_as_bytes:
  assumes "klass self = BytesFileResponse"
  shows "pre_call L (self\<lparr>klass := JsonFileResponse\<rparr>) w =
           (case pre_call L self w of (r, s, w') \<Rightarrow> (r, s\<lparr>klass := JsonFileResponse\<rparr>, w'))"
  using assms
  by (auto simp: pre_call_def BytesFileResponse_pre_call_def set_stat_headers_def Let_def
      monotonic_def split: prod.splits option.splits sum.splits)

lemma iterate_content_json_as_bytes:
  assumes "klass self = BytesFileResponse"
  shows "iterate_content (self\<lparr>klass := JsonFileResponse\<rparr>) cs w = iterate_content self cs w"
  using assms by (simp add: iterate_content_def BytesFileResponse_iterate_content_def)

lemma call_json_as_bytes:
  assumes "klass self = BytesFileResponse"
  shows "call L (self\<lparr>klass := JsonFileResponse\<rparr>) sc w =
           (case call L self sc w of (r, s, w') \<Rightarrow> (r, s\<lparr>klass := JsonFileResponse\<rparr>, w'))"
proof -
  obtain r self1 w1 where pc: "pre_call L self w = (r, self1, w1)"
    by (cases "pre_call L self w") auto
  then have pj: "pre_call L (self\<lparr>klass := JsonFileResponse\<rparr>) w
      = (r, self1\<lparr>klass := JsonFileResponse\<rparr>, w1)"
    using pre_call_json_as_bytes [OF assms, of L w] by simp
  have k1: "klass self1 = BytesFileResponse" using pre_call_attrs(1) [OF pc] assms by simp
  show ?thesis
  proof (cases r)
    case (Inl e)
    with pc pj show ?thesis by (simp add: call_def)
  next
    case (Inr u)
    with pc pj iterate_content_json_as_bytes [OF k1] show ?thesis
      by (simp add: call_def Let_def post_call_def split: sum.splits)
  qed
qed

lemma init_json_as_bytes:
  "BytesFileResponse_init L JsonFileResponse c fname st hs mt bg sz mtm cdt =
     (BytesFileResponse_init L BytesFileResponse c fname st hs mt bg sz mtm cdt)
       \<lparr>klass := JsonFileResponse\<rparr>"
  by (simp add: BytesFileResponse_init_def BaseFileResponse_init_def
      set_content_disposition_header_def Let_def split: option.splits)

lemma klass_bytes_init:
  "klass (BytesFileResponse_init L cls c fname st hs mt bg sz mtm cdt) = cls"
  by (simp add: BytesFileResponse_init_def BaseFileResponse_init_def
      set_content_disposition_header_def Let_def split: option.splits)

text \<open>
  Claim C9: for every structure that \<open>json.dumps\<close> serializes and all values of the shared
  parameters, a \<open>JsonFileResponse\<close> behaves as the \<open>BytesFileResponse\<close> built with the same
  parameters on the encoded serialization: the same headers and content after
  construction and, for every request and world, the same outcome of the call, the same
  world after it (so the same frames in the same order) and the same headers after it.
\<close>

theorem C9_json_is_bytes_of_serialization:
  assumes "json_dumps L structure = Inr text"
  shows "\<exists>rj. JsonFileResponse_init L structure fname st hs mt bg sz mtm cdt = Inr rj
           \<and> (let rb = BytesFileResponse_init L BytesFileResponse (encode text) fname st hs mt
                          bg sz mtm cdt
              in rj = rb\<lparr>klass := JsonFileResponse\<rparr>
                 \<and> raw_headers rj = raw_headers rb \<and> content rj = content rb
                 \<and> (\<forall>sc w. fst (call L rj sc w) = fst (call L rb sc w)
                       \<and> snd (snd (call L rj sc w)) = snd (snd (call L rb sc w))
                       \<and> raw_headers (fst (snd (call L rj sc w)))
                           = raw_headers (fst (snd (call L rb sc w)))))"
proof -
  let ?rb = "BytesFileResponse_init L BytesFileResponse (encode text) fname st hs mt bg sz mtm cdt"
  let ?rj = "?rb\<lparr>klass := JsonFileResponse\<rparr>"
  have i: "JsonFileResponse_init L structure fname st hs mt bg sz mtm cdt = Inr ?rj"
    using assms by (simp add: JsonFileResponse_init_def init_json_as_bytes)
  have k: "klass ?rb = BytesFileResponse" by (rule klass_bytes_init)
  have c: "fst (call L ?rj sc w) = fst (call L ?rb sc w)
      \<and> snd (snd (call L ?rj sc w)) = snd (snd (call L ?rb sc w))
      \<and> raw_headers (fst (snd (call L ?rj sc w))) = raw_headers (fst (snd (call L ?rb sc w)))"
    for sc w
    unfolding call_json_as_bytes [OF k] by (simp split: prod.splits)
  show ?thesis using i c by (simp add: Let_def)
qed

lemma bytes_hi_response_eq:
  "bytes_hi_response = \<lparr>klass = BytesFileResponse, chunk_size = 65536, status_code = 200,
     media_type = Some ''image/png'', background = None, filename = Some ''example.png'',
     raw_headers = [(''content-type'', ''image/png''),
                    (''content-disposition'', ''attachment; filename='' @ dquote @ ''example.png'' @ dquote)],
     size_attr = None, mtime = None, path = [], stat_result = None,
     content = [34, 104, 105, 34]\<rparr>"
  by (simp add: bytes_hi_response_def model_eval lib0_def str_eval)

theorem C9_json_is_bytes_of_serialization_witness:
  "json_dumps lib0 ''hi'' = Inr (dquote @ ''hi'' @ dquote)
   \<and> json_hi_init = Inr (bytes_hi_response\<lparr>klass := JsonFileResponse\<rparr>)
   \<and> content (projr json_hi_init) = [34, 104, 105, 34]
   \<and> snd (snd (call lib0 (projr json_hi_init) get_scope world0))
       = snd (snd (call lib0 bytes_hi_response get_scope world0))
   \<and> fst (call lib0 (projr json_hi_init) head_scope world0)
       = fst (call lib0 bytes_hi_response head_scope world0)"
proof -
  have d: "json_dumps lib0 ''hi'' = Inr (dquote @ ''hi'' @ dquote)" by (simp add: lib0_def)
  note t = C9_json_is_bytes_of_serialization [OF d, of "''example.png''" 200 None None
      "None :: (string \<Rightarrow> string) option" None None "''attachment''",
      folded json_hi_init_def bytes_hi_response_def]
  from t obtain rj where r1: "json_hi_init = Inr rj"
    and r2: "rj = bytes_hi_response\<lparr>klass := JsonFileResponse\<rparr>"
    and r3: "\<And>sc w. fst (call lib0 rj sc w) = fst (call lib0 bytes_hi_response sc w)"
    and r4: "\<And>sc w. snd (snd (call lib0 rj sc w)) = snd (snd (call lib0 bytes_hi_response sc w))"
    unfolding Let_def by blast
  have p: "projr json_hi_init = rj" by (simp add: r1)
  have c: "content rj = [34, 104, 105, 34]" by (simp add: r2 bytes_hi_response_eq)
  show ?thesis unfolding p using d r1 r2 r3 r4 c by simp
qed

section \<open>Headers\<close>

lemma lookup_header_setdefault:
  "lookup_header k (setdefault k' v hs) =
     (if str_lower k = str_lower k'
      then Some (case lookup_header k hs of Some x \<Rightarrow> x | None \<Rightarrow> v)
      else lookup_header k hs)"
proof (cases "str_lower k' \<in> set (map fst hs)")
  case True
  then have "map_of hs (str_lower k') \<noteq> None" by (simp add: map_of_eq_None_iff)
  with True show ?thesis by (auto simp: lookup_header_def setdefault_def)
next
  case False
  then have "map_of hs (str_lower k') = None" by (simp add: map_of_eq_None_iff)
  with False show ?thesis
    by (auto simp: lookup_header_def setdefault_def map_add_def split: option.splits)
qed

lemma str_lower_keys:
  "str_lower ''content-disposition'' = ''content-disposition''"
  "str_lower ''content-length'' = ''content-length''"
  "str_lower ''last-modified'' = ''last-modified''"
  "str_lower ''etag'' = ''etag''"
  by (simp_all add: str_lower_def lower_char_def ascii_lowercase_def ascii_uppercase_def)

lemma lookup_init_headers:
  assumes "str_lower k \<noteq> ''content-type''"
  shows "lookup_header k (init_headers mt hs) =
           (case hs of None \<Rightarrow> None
            | Some h \<Rightarrow> map_of (map (\<lambda>(k, v). (str_lower k, v)) h) (str_lower k))"
  using assms
  by (auto simp: lookup_header_def init_headers_def Let_def map_add_def
      split: option.splits)

lemma base_init_content_disposition:
  "lookup_header ''content-disposition''
     (raw_headers (BaseFileResponse_init L cls st hs mt bg (Some fname) sz mtm cdt)) =
   Some (case (case hs of None \<Rightarrow> None
               | Some h \<Rightarrow> map_of (map (\<lambda>(k, v). (str_lower k, v)) h) ''content-disposition'') of
           Some v \<Rightarrow> v
         | None \<Rightarrow> if quote fname = fname then cdt @ ''; filename='' @ dquote @ fname @ dquote
                   else cdt @ ''; filename*=utf-8'' @ squote @ squote @ quote fname)"
proof -
  have ne: "str_lower ''content-disposition'' \<noteq> ''content-type''"
    by (simp add: str_lower_keys)
  show ?thesis
    by (simp add: BaseFileResponse_init_def set_content_disposition_header_def Let_def
        lookup_header_setdefault lookup_init_headers [OF ne] str_lower_keys
        split: option.splits)
qed

section \<open>The content-disposition header\<close>

lemma file_init_raw_headers:
  "raw_headers (FileResponse_init L p st hs mt bg fn sr cdt) =
     raw_headers (BaseFileResponse_init L FileResponse st hs
        (if mt = None \<and> fn = None then guess_type L p else mt) bg fn
        (case sr of None \<Rightarrow> None | Some s \<Rightarrow> Some (st_size s))
        (case sr of None \<Rightarrow> None | Some s \<Rightarrow> Some (st_mtime s)) cdt)"
  by (simp add: FileResponse_init_def Let_def)

lemma bytes_init_raw_headers:
  "raw_headers (BytesFileResponse_init L cls c fname st hs mt bg sz mtm cdt) =
     raw_headers (BaseFileResponse_init L cls st hs mt bg (Some fname) sz mtm cdt)"
  by (simp add: BytesFileResponse_init_def)

lemma text_init_raw_headers:
  "raw_headers (TextFileResponse_init L t fname st hs mt bg sz mtm cdt) =
     raw_headers (BaseFileResponse_init L TextFileResponse st hs mt bg (Some fname) sz mtm cdt)"
  by (simp add: TextFileResponse_init_def)

text \<open>
  Claim C7: for every response constructed with a filename, the content-disposition
  header is \<open>{mode}; filename="{filename}"\<close> when percent-encoding leaves the filename
  unchanged and \<open>{mode}; filename*=utf-8''{encoded}\<close> when it changes it, and it is set
  only when the caller's headers do not already have it (under any letter case of the
  name), in which case the caller's value stays.
\<close>

theorem C7_content_disposition:
  "let expected = (if quote fname = fname then cdt @ ''; filename='' @ dquote @ fname @ dquote
                   else cdt @ ''; filename*=utf-8'' @ squote @ squote @ quote fname);
       supplied = (case hs of None \<Rightarrow> None
                   | Some h \<Rightarrow> map_of (map (\<lambda>(k, v). (str_lower k, v)) h) ''content-disposition'');
       header = (\<lambda>r. lookup_header ''content-disposition'' (raw_headers r));
       result = Some (case supplied of Some v \<Rightarrow> v | None \<Rightarrow> expected)
   in header (FileResponse_init L p st hs mt bg (Some fname) sr cdt) = result
    \<and> header (BytesFileResponse_init L cls c fname st hs mt bg sz mtm cdt) = result
    \<and> header (TextFileResponse_init L t fname st hs mt bg sz mtm cdt) = result
    \<and> (\<forall>rj. JsonFileResponse_init L j fname st hs mt bg sz mtm cdt = Inr rj
             \<longrightarrow> header rj = result)"
  unfolding Let_def
proof (intro conjI allI impI)
  show "lookup_header ''content-disposition''
      (raw_headers (FileResponse_init L p st hs mt bg (Some fname) sr cdt)) =
     Some (case (case hs of None \<Rightarrow> None
               | Some h \<Rightarrow> map_of (map (\<lambda>(k, v). (str_lower k, v)) h) ''content-disposition'') of
           Some v \<Rightarrow> v
         | None \<Rightarrow> if quote fname = fname then cdt @ ''; filename='' @ dquote @ fname @ dquote
                   else cdt @ ''; filename*=utf-8'' @ squote @ squote @ quote fname)"
    unfolding file_init_raw_headers by (rule base_init_content_disposition)
  show "lookup_header ''content-disposition''
      (raw_headers (BytesFileResponse_init L cls c fname st hs mt bg sz mtm cdt)) =
     Some (case (case hs of None \<Rightarrow> None
               | Some h \<Rightarrow> map_of (map (\<lambda>(k, v). (str_lower k, v)) h) ''content-disposition'') of
           Some v \<Rightarrow> v
         | None \<Rightarrow> if quote fname = fname then cdt @ ''; filename='' @ dquote @ fname @ dquote
                   else cdt @ ''; filename*=utf-8'' @ squote @ squote @ quote fname)"
    unfolding bytes_init_raw_headers by (rule base_init_content_disposition)
  show "lookup_header ''content-disposition''
      (raw_headers (TextFileResponse_init L t fname st hs mt bg sz mtm cdt)) =
     Some (case (case hs of None \<Rightarrow> None
               | Some h \<Rightarrow> map_of (map (\<lambda>(k, v). (str_lower k, v)) h) ''content-disposition'') of
           Some v \<Rightarrow> v
         | None \<Rightarrow> if quote fname = fname then cdt @ ''; filename='' @ dquote @ fname @ dquote
                   else cdt @ ''; filename*=utf-8'' @ squote @ squote @ quote fname)"
    unfolding text_init_raw_headers by (rule base_init_content_disposition)
next
  fix rj
  assume "JsonFileResponse_init L j fname st hs mt bg sz mtm cdt = Inr rj"
  then obtain serial where
    "rj = BytesFileResponse_init L JsonFileResponse (encode serial) fname st hs mt bg sz mtm cdt"
    by (auto simp: JsonFileResponse_init_def split: sum.splits)
  then show "lookup_header ''content-disposition'' (raw_headers rj) =
     Some (case (case hs of None \<Rightarrow> None
               | Some h \<Rightarrow> map_of (map (\<lambda>(k, v). (str_lower k, v)) h) ''content-disposition'') of
           Some v \<Rightarrow> v
         | None \<Rightarrow> if quote fname = fname then cdt @ ''; filename='' @ dquote @ fname @ dquote
                   else cdt @ ''; filename*=utf-8'' @ squote @ squote @ quote fname)"
    by (simp only: bytes_init_raw_headers base_init_content_disposition)
qed

theorem C7_content_disposition_witness:
  "quote ''example.png'' = ''example.png''
   \<and> lookup_header ''content-disposition''
         (raw_headers (BytesFileResponse_init lib0 BytesFileResponse [60, 62] ''example.png'' 200
            None None (None :: (string \<Rightarrow> string) option) None None ''attachment''))
       = Some (''attachment; filename='' @ dquote @ ''example.png'' @ dquote)
   \<and> quote nihao_txt = ''%E4%BD%A0%E5%A5%BD.txt''
   \<and> lookup_header ''content-disposition''
         (raw_headers (FileResponse_init lib0 ''/tmp/xyz'' 200 None None
            (None :: (string \<Rightarrow> string) option) (Some nihao_txt) None ''inline''))
       = Some (''inline; filename*=utf-8'' @ squote @ squote @ ''%E4%BD%A0%E5%A5%BD.txt'')
   \<and> lookup_header ''content-disposition''
         (raw_headers (TextFileResponse_init lib0 ''text'' ''example.png'' 200
            (Some [(''Content-Disposition'', ''inline'')]) None
            (None :: (string \<Rightarrow> string) option) None None ''attachment''))
       = Some ''inline''"
proof -
  have q1: "quote ''example.png'' = ''example.png''" by (simp add: str_eval)
  have q2: "quote nihao_txt = ''%E4%BD%A0%E5%A5%BD.txt''" by (simp add: nihao_txt_def str_eval)
  have q3: "nihao_txt \<noteq> ''%E4%BD%A0%E5%A5%BD.txt''" by (simp add: nihao_txt_def)
  have l: "str_lower ''Content-Disposition'' = ''content-disposition''"
    by (simp add: str_lower_def lower_char_def ascii_lowercase_def ascii_uppercase_def)
  note t = C7_content_disposition [unfolded Let_def]
  have a: "lookup_header ''content-disposition''
         (raw_headers (BytesFileResponse_init lib0 BytesFileResponse [60, 62] ''example.png'' 200
            None None (None :: (string \<Rightarrow> string) option) None None ''attachment''))
       = Some (''attachment; filename='' @ dquote @ ''example.png'' @ dquote)"
    using t [where L = lib0 and fname = "''example.png''" and hs = None and cdt = "''attachment''"
        and cls = BytesFileResponse and c = "[60, 62]" and st = 200 and mt = None
        and bg = "None :: (string \<Rightarrow> string) option" and sz = None and mtm = None,
        THEN conjunct2, THEN conjunct1]
    by (simp add: q1)
  have b: "lookup_header ''content-disposition''
         (raw_headers (FileResponse_init lib0 ''/tmp/xyz'' 200 None None
            (None :: (string \<Rightarrow> string) option) (Some nihao_txt) None ''inline''))
       = Some (''inline; filename*=utf-8'' @ squote @ squote @ ''%E4%BD%A0%E5%A5%BD.txt'')"
    using t [where L = lib0 and fname = nihao_txt and hs = None and cdt = "''inline''"
        and p = "''/tmp/xyz''" and st = 200 and mt = None and sr = None
        and bg = "None :: (string \<Rightarrow> string) option", THEN conjunct1]
    by (simp add: q2 q3 q3 [symmetric])
  have c: "lookup_header ''content-disposition''
         (raw_headers (TextFileResponse_init lib0 ''text'' ''example.png'' 200
            (Some [(''Content-Disposition'', ''inline'')]) None
            (None :: (string \<Rightarrow> string) option) None None ''attachment''))
       = Some ''inline''"
    using t [where L = lib0 and fname = "''example.png''"
        and hs = "Some [(''Content-Disposition'', ''inline'')]" and cdt = "''attachment''"
        and t = "''text''" and st = 200 and mt = None
        and bg = "None :: (string \<Rightarrow> string) option" and sz = None and mtm = None,
        THEN conjunct2, THEN conjunct2, THEN conjunct1]
    by (simp add: l)
  from q1 a q2 b c show ?thesis by blast
qed

section \<open>The identity headers\<close>

lemma set_stat_headers_Inr:
  assumes "formatdate L mt = Inr d"
  shows "set_stat_headers L self sz mt =
     Inr (self\<lparr>raw_headers :=
            setdefault ''etag''
              (dquote @ md5_hexdigest L (encode (str_float L mt @ ''-'' @ str_int sz)) @ dquote)
              (setdefault ''last-modified'' d
                 (setdefault ''content-length'' (str_int sz) (raw_headers self)))\<rparr>)"
  using assms by (simp add: set_stat_headers_def Let_def)

lemma set_stat_headers_Inl:
  assumes "formatdate L mt = Inl e"
  shows "set_stat_headers L self sz mt = Inl e"
  using assms by (simp add: set_stat_headers_def Let_def)

lemma stat_headers_lookup:
  "lookup_header ''content-length''
     (setdefault ''etag'' etag (setdefault ''last-modified'' d (setdefault ''content-length'' cl hs)))
     = Some (case lookup_header ''content-length'' hs of Some v \<Rightarrow> v | None \<Rightarrow> cl)"
  "lookup_header ''last-modified''
     (setdefault ''etag'' etag (setdefault ''last-modified'' d (setdefault ''content-length'' cl hs)))
     = Some (case lookup_header ''last-modified'' hs of Some v \<Rightarrow> v | None \<Rightarrow> d)"
  "lookup_header ''etag''
     (setdefault ''etag'' etag (setdefault ''last-modified'' d (setdefault ''content-length'' cl hs)))
     = Some (case lookup_header ''etag'' hs of Some v \<Rightarrow> v | None \<Rightarrow> etag)"
  by (simp_all add: lookup_header_setdefault str_lower_keys split: option.splits)

text \<open>
  The pre-send hook of the in-memory classes: the size is \<open>self.size\<close> unless that is
  \<open>None\<close> or zero, the time is \<open>self.mtime\<close> unless that is \<open>None\<close> or zero; the clock is
  read twice when \<open>self.mtime\<close> is \<open>None\<close> (the first reading is dropped) and once when
  it is zero; the hook fails exactly when \<open>set_stat_headers\<close> does.
\<close>

lemma in_memory_pre_call_eq:
  assumes "klass self \<noteq> FileResponse"
  shows "pre_call L self w =
     (case set_stat_headers L self
             (case size_attr self of
                None \<Rightarrow> int (length (content self))
              | Some s \<Rightarrow> if s = 0 then int (length (content self)) else s)
             (case mtime self of
                None \<Rightarrow> clock w (Suc (ticks w))
              | Some m \<Rightarrow> if m = 0 then clock w (ticks w) else m) of
        Inl e \<Rightarrow>
          (Inl e, self,
           w\<lparr>ticks := (case mtime self of
                          None \<Rightarrow> Suc (Suc (ticks w))
                        | Some m \<Rightarrow> if m = 0 then Suc (ticks w) else ticks w)\<rparr>)
      | Inr self1 \<Rightarrow>
          (Inr (), self1,
           w\<lparr>ticks := (case mtime self of
                          None \<Rightarrow> Suc (Suc (ticks w))
                        | Some m \<Rightarrow> if m = 0 then Suc (ticks w) else ticks w)\<rparr>))"
  using assms
  by (cases "klass self")
    (auto simp: pre_call_def BytesFileResponse_pre_call_def TextFileResponse_pre_call_def
      monotonic_def Let_def split: option.splits sum.splits)


text \<open>
  With a precomputed \<open>stat_result\<close>, \<open>FileResponse.pre_call\<close> sets no header at all: the
  call of \<open>set_stat_headers\<close> is inside the branch that runs \<open>os.stat\<close>.
\<close>

lemma file_pre_call_precomputed:
  assumes "klass self = FileResponse" and "stat_result self = Some st"
  shows "fst (snd (pre_call L self w)) = self"
  using assms by (simp add: pre_call_def FileResponse_pre_call_def Let_def)

lemma zero_size_response_eq:
  "zero_size_response = \<lparr>klass = BytesFileResponse, chunk_size = 65536, status_code = 200,
     media_type = Some ''image/png'', background = None, filename = Some ''example.png'',
     raw_headers = [(''content-type'', ''image/png''),
                    (''content-disposition'', ''attachment; filename='' @ dquote @ ''example.png'' @ dquote)],
     size_attr = Some 0, mtime = Some 0, path = [], stat_result = None,
     content = [60, 62]\<rparr>"
  by (simp add: zero_size_response_def model_eval lib0_def str_eval)

lemma stat_xyz_response_eq:
  "stat_xyz_response = \<lparr>klass = FileResponse, chunk_size = 65536, status_code = 200,
     media_type = Some ''image/png'', background = None, filename = Some ''example.png'',
     raw_headers = [(''content-type'', ''image/png''),
                    (''content-disposition'', ''attachment; filename='' @ dquote @ ''example.png'' @ dquote)],
     size_attr = Some 6, mtime = Some 1000, path = ''/tmp/xyz'',
     stat_result = Some \<lparr>st_mode = 0x81A4, st_size = 6, st_mtime = 1000\<rparr>, content = []\<rparr>"
  by (simp add: stat_xyz_response_def model_eval lib0_def regular_file_def str_eval)


lemma far_future_response_eq:
  "far_future_response = \<lparr>klass = BytesFileResponse, chunk_size = 65536, status_code = 200,
     media_type = Some ''image/png'', background = None, filename = Some ''example.png'',
     raw_headers = [(''content-type'', ''image/png''),
                    (''content-disposition'', ''attachment; filename='' @ dquote @ ''example.png'' @ dquote)],
     size_attr = None, mtime = Some 300000000000, path = [], stat_result = None,
     content = [60, 62]\<rparr>"
  by (simp add: far_future_response_def model_eval lib0_def str_eval)

text \<open>
  A \<open>FileResponse\<close> built with the status of an existing regular file: the pre-send hook
  succeeds and leaves the response without content-length, last-modified and etag.
\<close>

lemma precomputed_stat_sets_no_identity_headers:
  "fst (pre_call lib0 stat_xyz_response world0) = Inr ()
   \<and> lookup_header ''content-length''
         (raw_headers (fst (snd (pre_call lib0 stat_xyz_response world0)))) = None
   \<and> lookup_header ''last-modified''
         (raw_headers (fst (snd (pre_call lib0 stat_xyz_response world0)))) = None
   \<and> lookup_header ''etag''
         (raw_headers (fst (snd (pre_call lib0 stat_xyz_response world0)))) = None"
  by (simp add: stat_xyz_response_eq pre_call_def FileResponse_pre_call_def S_ISREG_def
      Let_def lookup_header_def str_lower_keys dquote_def)

text \<open>
  A supplied mtime that \<open>formatdate\<close> refuses: the hook ends with that error and sets no
  header.
\<close>

lemma unformattable_mtime_fails_the_hook:
  "pre_call lib0 far_future_response world0
     = (Inl (ValueError ''year out of range''), far_future_response, world0)"
proof -
  have k: "klass far_future_response \<noteq> FileResponse" by (simp add: far_future_response_eq)
  have f: "formatdate lib0 300000000000 = Inl (ValueError ''year out of range'')"
    by (simp add: lib0_def)
  show ?thesis
    unfolding in_memory_pre_call_eq [OF k]
    by (simp add: far_future_response_eq set_stat_headers_Inl [OF f] world0_def)
qed




text \<open>
  Claim C10: for \<open>BytesFileResponse\<close> and \<open>TextFileResponse\<close> (and \<open>JsonFileResponse\<close>, which
  inherits the hook) a supplied size of 0 is treated as absent: with \<open>size=0\<close> the
  content-length header is the decimal string of the length of the encoded content, and
  with \<open>mtime=0.0\<close> last-modified and etag are derived from a clock reading taken by the
  hook, not from 0.0. (The headers are written when \<open>formatdate\<close> accepts the time.)
\<close>

theorem C10_zero_is_treated_as_absent:
  assumes "klass self \<noteq> FileResponse"
    and "formatdate L (case mtime self of
                         None \<Rightarrow> clock w (Suc (ticks w))
                       | Some m \<Rightarrow> if m = 0 then clock w (ticks w) else m) = Inr last_modified"
  shows "let len = int (length (content self));
             now = clock w (ticks w);
             before = (\<lambda>k. lookup_header k (raw_headers self));
             after = (\<lambda>k. lookup_header k (raw_headers (fst (snd (pre_call L self w)))))
         in (size_attr self = Some 0 \<and> before ''content-length'' = None
               \<longrightarrow> after ''content-length'' = Some (str_int len))
          \<and> (mtime self = Some 0 \<and> before ''last-modified'' = None
               \<longrightarrow> formatdate L now = Inr last_modified
                   \<and> after ''last-modified'' = Some last_modified)
          \<and> (mtime self = Some 0 \<and> before ''etag'' = None
               \<longrightarrow> after ''etag'' =
                     Some (dquote @ md5_hexdigest L (encode (str_float L now @ ''-'' @
                             str_int (case size_attr self of
                                        None \<Rightarrow> len
                                      | Some s \<Rightarrow> if s = 0 then len else s))) @ dquote))
          \<and> (mtime self = Some 0
               \<longrightarrow> ticks (snd (snd (pre_call L self w))) = Suc (ticks w))"
  unfolding Let_def in_memory_pre_call_eq [OF assms(1)] set_stat_headers_Inr [OF assms(2)]
  using assms(2) by (auto simp: stat_headers_lookup)

theorem C10_zero_is_treated_as_absent_witness:
  "klass zero_size_response \<noteq> FileResponse
   \<and> size_attr zero_size_response = Some 0 \<and> mtime zero_size_response = Some 0
   \<and> lookup_header ''content-length'' (raw_headers zero_size_response) = None
   \<and> lookup_header ''last-modified'' (raw_headers zero_size_response) = None
   \<and> lookup_header ''etag'' (raw_headers zero_size_response) = None
   \<and> clock world0 (ticks world0) = 5000
   \<and> formatdate lib0 5000 = Inr ''date:5000''
   \<and> lookup_header ''content-length''
         (raw_headers (fst (snd (pre_call lib0 zero_size_response world0)))) = Some ''2''
   \<and> lookup_header ''last-modified''
         (raw_headers (fst (snd (pre_call lib0 zero_size_response world0)))) = Some ''date:5000''
   \<and> lookup_header ''etag''
         (raw_headers (fst (snd (pre_call lib0 zero_size_response world0))))
       = Some (dquote @ ''353030302E302D32'' @ dquote)
   \<and> ticks (snd (snd (pre_call lib0 zero_size_response world0))) = 1"
proof -
  have k: "klass zero_size_response \<noteq> FileResponse" by (simp add: zero_size_response_eq)
  have c: "clock world0 0 = 5000" "ticks world0 = 0" by (simp_all add: world0_def)
  have f: "formatdate lib0 5000 = Inr ''date:5000''"
    "md5_hexdigest lib0 (encode (str_float lib0 5000 @ ''-2'')) = ''353030302E302D32''"
    "str_int 2 = ''2''"
    by (simp_all add: lib0_def str_eval)
  have fd: "formatdate lib0 (case mtime zero_size_response of
                         None \<Rightarrow> clock world0 (Suc (ticks world0))
                       | Some m \<Rightarrow> if m = 0 then clock world0 (ticks world0) else m)
              = Inr ''date:5000''"
    by (simp add: zero_size_response_eq c f)
  have h: "size_attr zero_size_response = Some 0 \<and> mtime zero_size_response = Some 0
   \<and> lookup_header ''content-length'' (raw_headers zero_size_response) = None
   \<and> lookup_header ''last-modified'' (raw_headers zero_size_response) = None
   \<and> lookup_header ''etag'' (raw_headers zero_size_response) = None
   \<and> content zero_size_response = [60, 62]"
    by (simp add: zero_size_response_eq lookup_header_def str_lower_keys dquote_def)
  show ?thesis
    using C10_zero_is_treated_as_absent [OF k fd, unfolded Let_def] h k
    by (simp add: c f)
qed

end
